theory Spec2Isabelle
  imports Main
begin

section \<open>JavaScript values, objects and errors\<close>

text \<open>
  The forum backend handles JSON payloads. A value is what a JSON body, a route parameter or
  a token payload can carry, or \<open>undefined\<close>; only the \<open>typeof\<close> of a number matters to the
  code, so a number is an integer here. The object that a handler or a use case reads (a
  request body, the route params, the credentials, a use-case payload) is the finite map of
  its own properties, read by name (the order in which properties are enumerated is not
  modelled: every consumer in the repository reads properties by name).
\<close>

datatype jsval =
    JUndefined
  | JNull
  | JBool bool
  | JNum int
  | JStr string
  | JArr "jsval list"
  | JObj "(string \<times> jsval) list"

type_synonym jsobject = "string \<rightharpoonup> jsval"

text \<open>Reading a property: \<open>obj.k\<close> is \<open>undefined\<close> when the object has no property \<open>k\<close>.\<close>

definition get_prop :: "jsobject \<Rightarrow> string \<Rightarrow> jsval" where
  "get_prop obj k = (case obj k of None \<Rightarrow> JUndefined | Some v \<Rightarrow> v)"

text \<open>
  Errors are values. \<open>Error\<close> is the plain JavaScript \<open>Error\<close> with its message, as in
  \<open>throw new Error('AUTHENTICATION_ERROR.CREDENTIALS_NOT_MATCH')\<close> of BcryptPasswordHash;
  \<open>InvariantError\<close> is the class the table of DomainErrorTranslator builds; the other three
  are the client error kinds of the error taxonomy.
\<close>

datatype error =
    Error string
  | InvariantError string
  | AuthenticationError string
  | AuthorizationError string
  | NotFoundError string

section \<open>The HTTP framework: requests, responses, the JWT strategy\<close>

record request =
  payload :: jsobject
  params :: jsobject
  auth_credentials :: jsobject

text \<open>
  The response toolkit: \<open>h.response(v)\<close> makes a response with status code 200 that carries
  \<open>v\<close>, \<open>response.code(n)\<close> sets the status code. A handler returns either such a response
  or a plain value, which the framework wraps as \<open>h.response\<close> does.
\<close>

record 'b response =
  statusCode :: nat
  source :: 'b

definition h_response :: "'b \<Rightarrow> 'b response" where
  "h_response v = \<lparr>statusCode = 200, source = v\<rparr>"

definition code :: "nat \<Rightarrow> 'b response \<Rightarrow> 'b response" where
  "code n r = r\<lparr>statusCode := n\<rparr>"

datatype 'b handler_return = Response "'b response" | Plain 'b

fun toResponse :: "'b handler_return \<Rightarrow> 'b response" where
  "toResponse (Response r) = r"
| "toResponse (Plain v) = h_response v"

text \<open>
  The response envelope \<open>{ status, message?, data? }\<close>; \<open>data\<close> is an object literal, kept as
  the list of its properties.
\<close>

record 'a body =
  status :: string
  message :: "string option"
  data :: "(string \<times> 'a) list option"

text \<open>
  The \<open>forumapi_jwt\<close> strategy of createServer.js:
  \<^verbatim>\<open>validate: (artifacts) => ({ isValid: true,
     credentials: { id: artifacts.decoded.payload.id } })\<close>
  \<open>artifacts\<close> is what the JWT library hands over once it has verified the bearer token
  against the signing key; the verification itself is the library's.
\<close>

record artifacts =
  decoded_payload :: jsobject

record validation =
  isValid :: bool
  credentials :: jsobject

definition validate :: "artifacts \<Rightarrow> validation" where
  "validate a = \<lparr>isValid = True, credentials = [''id'' \<mapsto> get_prop (decoded_payload a) ''id'']\<rparr>"

text \<open>
  The request as a handler of an authenticated route receives it: the framework stores the
  credentials of the strategy's validation under \<open>request.auth.credentials\<close>.
\<close>

definition authenticate :: "artifacts \<Rightarrow> request \<Rightarrow> request" where
  "authenticate a r = r\<lparr>auth_credentials := credentials (validate a)\<rparr>"

section \<open>CommentsHandler\<close>

text \<open>
  A use case is injected through the container; it runs on the persistent store \<open>'db\<close> and
  either throws or returns, so it is a function from its payload and the store to a result
  and the store afterwards. Neither handler has a \<open>try\<close>: what the use case throws leaves
  the handler as it is.
\<close>

type_synonym ('db, 'a) use_case = "jsobject \<Rightarrow> 'db \<Rightarrow> (error + 'a) \<times> 'db"

text \<open>
  \<^verbatim>\<open>const payload = { ...request.payload,
     threadId: request.params.threadId, userId: request.auth.credentials.id };\<close>
\<close>

definition postCommentPayload :: "request \<Rightarrow> jsobject" where
  "postCommentPayload r =
     (payload r)(''threadId'' \<mapsto> get_prop (params r) ''threadId'',
                 ''userId'' \<mapsto> get_prop (auth_credentials r) ''id'')"

definition postCommentHandler ::
  "('db, 'a) use_case \<Rightarrow> request \<Rightarrow> 'db \<Rightarrow> (error + 'a body handler_return) \<times> 'db" where
  "postCommentHandler addCommentUseCase r db =
     (case addCommentUseCase (postCommentPayload r) db of
        (Inl e, db') \<Rightarrow> (Inl e, db')
      | (Inr addedComment, db') \<Rightarrow>
          (Inr (Response (code 201 (h_response
             \<lparr>status = ''success'', message = None,
              data = Some [(''addedComment'', addedComment)]\<rparr>))), db'))"

text \<open>
  \<^verbatim>\<open>const { commentId: id, threadId } = request.params;
  const userId = request.auth.credentials.id;
  const payload = { id, threadId, userId };\<close>
\<close>

definition deleteCommentPayload :: "request \<Rightarrow> jsobject" where
  "deleteCommentPayload r =
     [''id'' \<mapsto> get_prop (params r) ''commentId'',
      ''threadId'' \<mapsto> get_prop (params r) ''threadId'',
      ''userId'' \<mapsto> get_prop (auth_credentials r) ''id'']"

definition deleteCommentHandler ::
  "('db, 'a) use_case \<Rightarrow> request \<Rightarrow> 'db \<Rightarrow> (error + 'c body handler_return) \<times> 'db" where
  "deleteCommentHandler deleteCommentUseCase r db =
     (case deleteCommentUseCase (deleteCommentPayload r) db of
        (Inl e, db') \<Rightarrow> (Inl e, db')
      | (Inr _, db') \<Rightarrow>
          (Inr (Plain \<lparr>status = ''success'', message = None, data = None\<rparr>), db'))"

section \<open>Entities\<close>

datatype jstype = TString | TNumber

text \<open>\<open>typeof v === 'string'\<close>, \<open>typeof v === 'number'\<close>.\<close>

fun typeof_is :: "jstype \<Rightarrow> jsval \<Rightarrow> bool" where
  "typeof_is TString (JStr s) = True"
| "typeof_is TNumber (JNum n) = True"
| "typeof_is t v = False"

text \<open>
  Modelled from the spec: the entity classes (RegisterUser, NewComment, ...) and their
  \<open>_verifyPayload\<close> are not under src/. Given a raw key-value payload, an entity verifies
  that its required keys are present and of the expected primitive type (string/number),
  in that order, and otherwise fails with the error code of the missing property or of the
  wrong type; the codes are those of the table of DomainErrorTranslator,
  \<open>ENTITY.NOT_CONTAIN_NEEDED_PROPERTY\<close> and \<open>ENTITY.NOT_MEET_DATA_TYPE_SPECIFICATION\<close>.
  A required key is missing when reading it gives \<open>undefined\<close>. On success the entity
  exposes the declared fields, with the payload's values and nothing else.
\<close>

definition verifyPayload :: "string \<Rightarrow> (string \<times> jstype) list \<Rightarrow> jsobject \<Rightarrow> error option" where
  "verifyPayload entity declared p =
     (if list_ex (\<lambda>(k, t). get_prop p k = JUndefined) declared
      then Some (Error (entity @ ''.NOT_CONTAIN_NEEDED_PROPERTY''))
      else if list_ex (\<lambda>(k, t). \<not> typeof_is t (get_prop p k)) declared
      then Some (Error (entity @ ''.NOT_MEET_DATA_TYPE_SPECIFICATION''))
      else None)"

text \<open>
  Modelled from the spec: the constructor of an entity, not under src/. It verifies the raw
  payload and, on success, exposes the declared fields with the payload's values, and no
  other property of the payload.
\<close>

definition construct :: "string \<Rightarrow> (string \<times> jstype) list \<Rightarrow> jsobject \<Rightarrow> error + jsobject" where
  "construct entity declared p =
     (case verifyPayload entity declared p of
        Some e \<Rightarrow> Inl e
      | None \<Rightarrow> Inr (p |` set (map fst declared)))"

text \<open>
  Modelled from the spec: the RegisterUser entity, whose class is not under src/
  (\<open>execute\<close> reads its \<open>username\<close> and \<open>password\<close>; the users table gives the \<open>fullname\<close>).
\<close>

record register_user =
  username :: string
  password :: string
  fullname :: string

text \<open>
  Modelled from the spec: the required fields of RegisterUser and their primitive types;
  the three are text columns of the users table.
\<close>

definition RegisterUser_fields :: "(string \<times> jstype) list" where
  "RegisterUser_fields = [(''username'', TString), (''password'', TString), (''fullname'', TString)]"

text \<open>
  Modelled from the spec: \<open>new RegisterUser(payload)\<close>, the entity constructor at its three
  fields; the codes are the two \<open>REGISTER_USER\<close> keys of the table of DomainErrorTranslator.
\<close>

definition RegisterUser :: "jsobject \<Rightarrow> error + register_user" where
  "RegisterUser p =
     (case construct ''REGISTER_USER'' RegisterUser_fields p of
        Inl e \<Rightarrow> Inl e
      | Inr obj \<Rightarrow>
          (case (get_prop obj ''username'', get_prop obj ''password'', get_prop obj ''fullname'') of
             (JStr u, JStr pw, JStr f) \<Rightarrow> Inr \<lparr>username = u, password = pw, fullname = f\<rparr>
           | _ \<Rightarrow> Inl (Error ''REGISTER_USER.NOT_MEET_DATA_TYPE_SPECIFICATION'')))"

section \<open>DomainErrorTranslator\<close>

text \<open>
  The table of src/Commons/exceptions/DomainErrorTranslator.js as far as the repository
  shows it, an object literal from error codes to exceptions; the entries it elides are the
  parameter \<open>elided\<close> (they follow the two shown, so they win where a code is repeated).
\<close>

definition translation_table :: "(string \<rightharpoonup> error) \<Rightarrow> (string \<rightharpoonup> error)" where
  "translation_table elided =
     [''REGISTER_USER.NOT_CONTAIN_NEEDED_PROPERTY'' \<mapsto>
         InvariantError ''tidak dapat membuat user baru karena properti yang dibutuhkan tidak ada'',
      ''REGISTER_USER.NOT_MEET_DATA_TYPE_SPECIFICATION'' \<mapsto>
         InvariantError ''tidak dapat membuat user baru karena tipe data tidak sesuai''] ++ elided"

text \<open>
  Modelled from the spec: the function \<open>DomainErrorTranslator.translate\<close> is not under src/.
  It maps a domain-specific error code, the message of a plain \<open>Error\<close>, to the exception of
  the table; an error the table does not know stays as it is.
\<close>

definition translate :: "(string \<rightharpoonup> error) \<Rightarrow> error \<Rightarrow> error" where
  "translate table e =
     (case e of
        Error msg \<Rightarrow> (case table msg of Some e' \<Rightarrow> e' | None \<Rightarrow> e)
      | _ \<Rightarrow> e)"

section \<open>AddUserUseCase\<close>

text \<open>
  The use case receives its collaborators at construction:
  \<^verbatim>\<open>constructor({ userRepository, passwordHash })\<close>.
  Each of their methods is awaited and may throw.
\<close>

record ('db, 'r) userRepository =
  verifyAvailableUsername :: "string \<Rightarrow> 'db \<Rightarrow> (error + unit) \<times> 'db"
  addUser :: "register_user \<Rightarrow> 'db \<Rightarrow> (error + 'r) \<times> 'db"

record passwordHash =
  hash :: "string \<Rightarrow> error + string"

text \<open>
  The first three statements of \<open>execute\<close>, up to the object \<open>registerUser\<close> that the fourth
  hands to \<open>addUser\<close>:
  \<^verbatim>\<open>const registerUser = new RegisterUser(useCasePayload);
  await this._userRepository.verifyAvailableUsername(registerUser.username);
  registerUser.password = await this._passwordHash.hash(registerUser.password);\<close>
\<close>

definition AddUserUseCase_registerUser ::
  "('db, 'r) userRepository \<Rightarrow> passwordHash \<Rightarrow> jsobject \<Rightarrow> 'db \<Rightarrow> (error + register_user) \<times> 'db" where
  "AddUserUseCase_registerUser repo ph useCasePayload db =
     (case RegisterUser useCasePayload of
        Inl e \<Rightarrow> (Inl e, db)
      | Inr registerUser \<Rightarrow>
          (case verifyAvailableUsername repo (username registerUser) db of
             (Inl e, db1) \<Rightarrow> (Inl e, db1)
           | (Inr _, db1) \<Rightarrow>
               (case hash ph (password registerUser) of
                  Inl e \<Rightarrow> (Inl e, db1)
                | Inr hashed \<Rightarrow> (Inr (registerUser\<lparr>password := hashed\<rparr>), db1))))"

text \<open>\<^verbatim>\<open>return this._userRepository.addUser(registerUser);\<close>\<close>

definition AddUserUseCase_execute ::
  "('db, 'r) userRepository \<Rightarrow> passwordHash \<Rightarrow> jsobject \<Rightarrow> 'db \<Rightarrow> (error + 'r) \<times> 'db" where
  "AddUserUseCase_execute repo ph useCasePayload db =
     (case AddUserUseCase_registerUser repo ph useCasePayload db of
        (Inl e, db1) \<Rightarrow> (Inl e, db1)
      | (Inr registerUser, db1) \<Rightarrow> addUser repo registerUser db1)"

section \<open>The persistent store\<close>

text \<open>
  The tables of the relational store, each the list of its rows. The columns of \<open>users\<close> are
  those of the migration \<open>create-table-users\<close>; the other tables follow the data model.
\<close>

record user_row =
  user_id :: string
  user_username :: string
  user_password :: string
  user_fullname :: string

text \<open>
  Modelled from the spec: a comment has an id, the id of its thread, an owner, a content and
  a soft-delete flag.
\<close>

record comment_row =
  comment_id :: jsval
  comment_thread :: jsval
  comment_owner :: jsval
  comment_content :: string
  comment_is_delete :: bool

text \<open>
  Modelled from the spec: a reply has an id, the id of its comment, an owner, a content and
  a soft-delete flag.
\<close>

record reply_row =
  reply_id :: jsval
  reply_comment :: jsval
  reply_owner :: jsval
  reply_content :: string
  reply_is_delete :: bool

text \<open>
  Modelled from the spec: the persisted state, as far as the properties below need it; a
  like is a (comment id, user id) row.
\<close>

record store =
  users :: "user_row list"
  comments :: "comment_row list"
  replies :: "reply_row list"
  comment_likes :: "(jsval \<times> jsval) list"

text \<open>
  Modelled from the spec: the structure \<open>{id, username, fullname}\<close> that a registration
  returns.
\<close>

record registered_user =
  registered_id :: string
  registered_username :: string
  registered_fullname :: string

text \<open>
  Modelled from the spec: the repository adapter of users (UserRepositoryPostgres) is not
  under src/. Usernames are unique: \<open>verifyAvailableUsername\<close> fails with the "username not
  available" error when a row has the username, and changes nothing; \<open>addUser\<close> inserts the
  row under the id of the injected id generator and returns \<open>{id, username, fullname}\<close>.
\<close>

definition username_not_available :: error where
  "username_not_available = InvariantError ''username not available''"

text \<open>
  Modelled from the spec: the two methods of the users repository that \<open>execute\<close> calls,
  on the table of users; the id is the one the injected id generator yields.
\<close>

definition UserRepositoryPostgres :: "string \<Rightarrow> (store, registered_user) userRepository" where
  "UserRepositoryPostgres idGenerator =
     \<lparr>verifyAvailableUsername = (\<lambda>u db.
         if list_ex (\<lambda>row. user_username row = u) (users db)
         then (Inl username_not_available, db) else (Inr (), db)),
      addUser = (\<lambda>registerUser db.
         (Inr \<lparr>registered_id = idGenerator, registered_username = username registerUser,
               registered_fullname = fullname registerUser\<rparr>,
          db\<lparr>users := users db @
               [\<lparr>user_id = idGenerator, user_username = username registerUser,
                 user_password = password registerUser,
                 user_fullname = fullname registerUser\<rparr>]\<rparr>))\<rparr>"

section \<open>BcryptPasswordHash\<close>

text \<open>
  \<^verbatim>\<open>async hash(password) { return this._bcrypt.hash(password, this._saltRound); }\<close>
  The bcrypt library is injected; what it computes is its own.
\<close>

definition BcryptPasswordHash :: "(string \<Rightarrow> nat \<Rightarrow> error + string) \<Rightarrow> nat \<Rightarrow> passwordHash" where
  "BcryptPasswordHash bcrypt saltRound = \<lparr>hash = (\<lambda>password. bcrypt password saltRound)\<rparr>"

section \<open>Comments, replies and likes\<close>

text \<open>
  Modelled from the spec: DeleteCommentUseCase, DeleteReplyUseCase and the repository
  adapters of comments and replies are not under src/. A comment or a reply can only be
  deleted by its owner, and the ownership check precedes the mutation: a row that is not
  found signals a not-found error, an owner other than the requesting user an
  authorization error, and only then is the row marked as deleted (a soft delete: the row
  stays). The payload of the comment use case is the one \<open>deleteCommentHandler\<close> builds,
  \<open>{ id, threadId, userId }\<close>.
\<close>

definition comment_not_found :: error where
  "comment_not_found = NotFoundError ''comment not found''"

text \<open>
  Modelled from the spec: the authorization error of a user who is not the owner of the
  comment.
\<close>

definition not_comment_owner :: error where
  "not_comment_owner = AuthorizationError ''not the owner of the comment''"

text \<open>
  Modelled from the spec: the not-found error of a reply.
\<close>

definition reply_not_found :: error where
  "reply_not_found = NotFoundError ''reply not found''"

text \<open>
  Modelled from the spec: the authorization error of a user who is not the owner of the
  reply.
\<close>

definition not_reply_owner :: error where
  "not_reply_owner = AuthorizationError ''not the owner of the reply''"

text \<open>
  Modelled from the spec: \<open>verifyCommentOwner\<close> of the comment repository. Failure to find
  the row signals the not-found error, an ownership mismatch the authorization error.
\<close>

definition verifyCommentOwner :: "jsval \<Rightarrow> jsval \<Rightarrow> store \<Rightarrow> error option" where
  "verifyCommentOwner cid userId db =
     (case find (\<lambda>row. comment_id row = cid) (comments db) of
        None \<Rightarrow> Some comment_not_found
      | Some row \<Rightarrow> if comment_owner row = userId then None else Some not_comment_owner)"

text \<open>
  Modelled from the spec: \<open>deleteComment\<close> of the comment repository, a soft delete: the
  row is marked as deleted and stays.
\<close>

definition deleteComment :: "jsval \<Rightarrow> store \<Rightarrow> store" where
  "deleteComment cid db =
     db\<lparr>comments :=
          map (\<lambda>row. if comment_id row = cid then row\<lparr>comment_is_delete := True\<rparr> else row)
            (comments db)\<rparr>"

text \<open>
  Modelled from the spec: \<open>DeleteCommentUseCase.execute\<close>, on the payload
  \<open>{ id, threadId, userId }\<close> of the handler: the ownership check, then the soft delete.
\<close>

definition DeleteCommentUseCase_execute :: "(store, unit) use_case" where
  "DeleteCommentUseCase_execute useCasePayload db =
     (case verifyCommentOwner (get_prop useCasePayload ''id'') (get_prop useCasePayload ''userId'') db of
        Some e \<Rightarrow> (Inl e, db)
      | None \<Rightarrow> (Inr (), deleteComment (get_prop useCasePayload ''id'') db))"

text \<open>
  Modelled from the spec: \<open>verifyReplyOwner\<close> of the reply repository, as for comments.
\<close>

definition verifyReplyOwner :: "jsval \<Rightarrow> jsval \<Rightarrow> store \<Rightarrow> error option" where
  "verifyReplyOwner rid userId db =
     (case find (\<lambda>row. reply_id row = rid) (replies db) of
        None \<Rightarrow> Some reply_not_found
      | Some row \<Rightarrow> if reply_owner row = userId then None else Some not_reply_owner)"

text \<open>
  Modelled from the spec: \<open>deleteReply\<close> of the reply repository, a soft delete.
\<close>

definition deleteReply :: "jsval \<Rightarrow> store \<Rightarrow> store" where
  "deleteReply rid db =
     db\<lparr>replies :=
          map (\<lambda>row. if reply_id row = rid then row\<lparr>reply_is_delete := True\<rparr> else row)
            (replies db)\<rparr>"

text \<open>
  Modelled from the spec: \<open>DeleteReplyUseCase.execute\<close>, the same lifecycle one level
  deeper: the ownership check, then the soft delete.
\<close>

definition DeleteReplyUseCase_execute :: "jsval \<Rightarrow> jsval \<Rightarrow> store \<Rightarrow> (error + unit) \<times> store" where
  "DeleteReplyUseCase_execute rid userId db =
     (case verifyReplyOwner rid userId db of
        Some e \<Rightarrow> (Inl e, db)
      | None \<Rightarrow> (Inr (), deleteReply rid db))"

text \<open>
  Modelled from the spec: LikeUnlikeCommentUseCase and the repository adapter of comment
  likes are not under src/ (of the likes plugin only the registration is). A like is a
  (comment id, user id) row, unique per pair; the toggle of a user on a comment that exists
  removes the row when the user has liked the comment and inserts it otherwise. The like
  count of a comment is the number of its rows.
\<close>

definition likeCount :: "jsval \<Rightarrow> store \<Rightarrow> nat" where
  "likeCount cid db = length (filter (\<lambda>(c, u). c = cid) (comment_likes db))"

text \<open>
  Modelled from the spec: the toggle of the likes repository: the row of the pair is
  removed when it is there and inserted when it is not.
\<close>

definition toggleLike :: "jsval \<Rightarrow> jsval \<Rightarrow> store \<Rightarrow> store" where
  "toggleLike cid userId db =
     (if (cid, userId) \<in> set (comment_likes db)
      then db\<lparr>comment_likes := removeAll (cid, userId) (comment_likes db)\<rparr>
      else db\<lparr>comment_likes := comment_likes db @ [(cid, userId)]\<rparr>)"

text \<open>
  Modelled from the spec: \<open>LikeUnlikeCommentUseCase.execute\<close>: the comment must exist
  (not-found error otherwise), then the single persistence effect, the toggle.
\<close>

definition LikeUnlikeCommentUseCase_execute :: "jsval \<Rightarrow> jsval \<Rightarrow> store \<Rightarrow> (error + unit) \<times> store" where
  "LikeUnlikeCommentUseCase_execute cid userId db =
     (if list_ex (\<lambda>row. comment_id row = cid) (comments db)
      then (Inr (), toggleLike cid userId db)
      else (Inl comment_not_found, db))"

text \<open>
  Modelled from the spec: the detail of a thread (DetailThreadUseCase and its queries) is
  not under src/. The detail lists the comments of the thread, each with its replies and
  its like count; the content of a soft-deleted comment or reply is hidden (\<open>None\<close>), the
  entry and what hangs on it stay.
\<close>

record reply_view =
  view_reply_id :: jsval
  view_reply_content :: "string option"

text \<open>
  Modelled from the spec: an entry of the thread detail: a comment with its content (hidden
  when soft-deleted), its replies and its like count.
\<close>

record comment_view =
  view_comment_id :: jsval
  view_comment_content :: "string option"
  view_replies :: "reply_view list"
  view_likeCount :: nat

text \<open>
  Modelled from the spec: a reply as the detail shows it.
\<close>

definition viewReply :: "reply_row \<Rightarrow> reply_view" where
  "viewReply row =
     \<lparr>view_reply_id = reply_id row,
      view_reply_content = (if reply_is_delete row then None else Some (reply_content row))\<rparr>"

text \<open>
  Modelled from the spec: a comment as the detail shows it, with the replies that name it
  and the number of its likes.
\<close>

definition viewComment :: "store \<Rightarrow> comment_row \<Rightarrow> comment_view" where
  "viewComment db row =
     \<lparr>view_comment_id = comment_id row,
      view_comment_content = (if comment_is_delete row then None else Some (comment_content row)),
      view_replies = map viewReply (filter (\<lambda>r. reply_comment r = comment_id row) (replies db)),
      view_likeCount = likeCount (comment_id row) db\<rparr>"

text \<open>
  Modelled from the spec: the detail of a thread lists the comments of the thread.
\<close>

definition detailThread :: "jsval \<Rightarrow> store \<Rightarrow> comment_view list" where
  "detailThread threadId db =
     map (viewComment db) (filter (\<lambda>row. comment_thread row = threadId) (comments db))"

section \<open>The error response\<close>

text \<open>
  The \<open>onPreResponse\<close> extension of createServer.js begins
  \<^verbatim>\<open>const { response } = request;
  if (response instanceof Error) {
    const translatedError = DomainErrorTranslator.translate(response);\<close>
  and the rest of its body is not under src/.
\<close>

text \<open>
  Modelled from the spec: the status code and the message of a client error. Validation,
  authentication, authorization and not-found failures map to 400, 401, 403 and 404; a plain
  \<open>Error\<close> is none of them.
\<close>

fun clientStatus :: "error \<Rightarrow> (nat \<times> string) option" where
  "clientStatus (InvariantError m) = Some (400, m)"
| "clientStatus (AuthenticationError m) = Some (401, m)"
| "clientStatus (AuthorizationError m) = Some (403, m)"
| "clientStatus (NotFoundError m) = Some (404, m)"
| "clientStatus (Error m) = None"

text \<open>
  Modelled from the spec: the body of \<open>onPreResponse\<close> after the translation. A client
  error is answered with its status code and the envelope \<open>{ status: 'fail', message }\<close>; any
  other error is surfaced as a generic 500 with the envelope \<open>{ status: 'error', message }\<close>,
  whose message is a fixed text (the parameter \<open>generic\<close>) and carries nothing of the error. A
  response that is not an error goes on unchanged.
\<close>

definition onPreResponse ::
  "(string \<rightharpoonup> error) \<Rightarrow> string \<Rightarrow> error + 'a body handler_return \<Rightarrow> 'a body response" where
  "onPreResponse table generic response =
     (case response of
        Inl e \<Rightarrow>
          (let translatedError = translate table e in
           case clientStatus translatedError of
             Some (c, m) \<Rightarrow>
               code c (h_response \<lparr>status = ''fail'', message = Some m, data = None\<rparr>)
           | None \<Rightarrow>
               code 500 (h_response \<lparr>status = ''error'', message = Some generic, data = None\<rparr>))
      | Inr ret \<Rightarrow> toResponse ret)"

section \<open>AddCommentUseCase\<close>

text \<open>
  Modelled from the spec: the structure that adding a comment returns, the added resource's
  id, content and owner.
\<close>

record added_comment =
  added_id :: jsval
  added_content :: string
  added_owner :: jsval

text \<open>
  Modelled from the spec: the field the NewComment entity requires of the client, the
  content, a string.
\<close>

definition NewComment_fields :: "(string \<times> jstype) list" where
  "NewComment_fields = [(''content'', TString)]"

text \<open>
  Modelled from the spec: \<open>AddCommentUseCase.execute\<close>, not under src/, on the payload that
  \<open>postCommentHandler\<close> builds. It constructs the entity from its input, checks with the
  injected thread repository that the thread exists (\<open>verifyThreadExists\<close>, a parameter),
  performs the single persistence effect, the insertion of the comment row under the id of
  the injected id generator, with the thread and the user of the payload as the owning
  thread and the owner, and returns the added comment.
\<close>

definition AddCommentUseCase_execute ::
  "(jsval \<Rightarrow> store \<Rightarrow> error option) \<Rightarrow> string \<Rightarrow> (store, added_comment) use_case" where
  "AddCommentUseCase_execute verifyThreadExists idGenerator useCasePayload db =
     (case construct ''NEW_COMMENT'' NewComment_fields useCasePayload of
        Inl e \<Rightarrow> (Inl e, db)
      | Inr newComment \<Rightarrow>
          (case verifyThreadExists (get_prop useCasePayload ''threadId'') db of
             Some e \<Rightarrow> (Inl e, db)
           | None \<Rightarrow>
               (case get_prop newComment ''content'' of
                  JStr content \<Rightarrow>
                    (Inr \<lparr>added_id = JStr idGenerator, added_content = content,
                          added_owner = get_prop useCasePayload ''userId''\<rparr>,
                     db\<lparr>comments := comments db @
                          [\<lparr>comment_id = JStr idGenerator,
                            comment_thread = get_prop useCasePayload ''threadId'',
                            comment_owner = get_prop useCasePayload ''userId'',
                            comment_content = content,
                            comment_is_delete = False\<rparr>]\<rparr>)
                | _ \<Rightarrow> (Inl (Error ''NEW_COMMENT.NOT_MEET_DATA_TYPE_SPECIFICATION''), db))))"

section \<open>Properties of the handlers\<close>

text \<open>
  C8. When its use case returns, the handler of POST comment answers with status code 201
  and the body \<open>{ status: 'success', data: { addedComment } }\<close> that holds what the use case
  returned; when its use case returns, the handler of DELETE comment answers with status
  code 200 and a body whose status is \<open>'success'\<close>. In both cases the store is the one the
  use case left.
\<close>

theorem C8_success_responses:
  "(addCommentUseCase (postCommentPayload r) db = (Inr addedComment, db') \<longrightarrow>
      (\<exists>ret. postCommentHandler addCommentUseCase r db = (Inr ret, db') \<and>
         statusCode (toResponse ret) = 201 \<and>
         status (source (toResponse ret)) = ''success'' \<and>
         data (source (toResponse ret)) = Some [(''addedComment'', addedComment)])) \<and>
   (deleteCommentUseCase (deleteCommentPayload r) db = (Inr u, db') \<longrightarrow>
      (\<exists>ret. (deleteCommentHandler deleteCommentUseCase r db
                 :: (error + unit body handler_return) \<times> 'db) = (Inr ret, db') \<and>
         statusCode (toResponse ret) = 200 \<and>
         status (source (toResponse ret)) = ''success''))"
  by (simp add: postCommentHandler_def deleteCommentHandler_def h_response_def code_def)

theorem C8_success_responses_witness:
  "(\<exists>ret. postCommentHandler
            (\<lambda>p db. (Inr (get_prop p ''content''), Suc db))
            \<lparr>payload = [''content'' \<mapsto> JStr ''sebuah comment''],
             params = [''threadId'' \<mapsto> JStr ''thread-123'', ''commentId'' \<mapsto> JStr ''comment-123''],
             auth_credentials = [''id'' \<mapsto> JStr ''user-123'']\<rparr> (0::nat)
          = (Inr ret, Suc 0) \<and>
        statusCode (toResponse ret) = 201 \<and>
        status (source (toResponse ret)) = ''success'' \<and>
        data (source (toResponse ret)) = Some [(''addedComment'', JStr ''sebuah comment'')]) \<and>
   (\<exists>ret. (deleteCommentHandler
            (\<lambda>p db. (Inr (), Suc db))
            \<lparr>payload = [''content'' \<mapsto> JStr ''sebuah comment''],
             params = [''threadId'' \<mapsto> JStr ''thread-123'', ''commentId'' \<mapsto> JStr ''comment-123''],
             auth_credentials = [''id'' \<mapsto> JStr ''user-123'']\<rparr> (0::nat)
            :: (error + unit body handler_return) \<times> nat)
          = (Inr ret, Suc 0) \<and>
        statusCode (toResponse ret) = 200 \<and>
        status (source (toResponse ret)) = ''success'')"
  using C8_success_responses
    [where addCommentUseCase = "\<lambda>p db. (Inr (get_prop p ''content''), Suc db)"
       and deleteCommentUseCase = "\<lambda>p db. (Inr (), Suc db)"
       and r = "\<lparr>payload = [''content'' \<mapsto> JStr ''sebuah comment''],
          params = [''threadId'' \<mapsto> JStr ''thread-123'', ''commentId'' \<mapsto> JStr ''comment-123''],
          auth_credentials = [''id'' \<mapsto> JStr ''user-123'']\<rparr>"
       and db = "0::nat" and addedComment = "JStr ''sebuah comment''" and db' = "Suc 0"
       and u = "()"]
  by (simp add: postCommentPayload_def get_prop_def)

lemma token_id_credentials:
  assumes "decoded_payload a ''id'' = Some v"
  shows "credentials (validate a) = [''id'' \<mapsto> v]"
    and "auth_credentials (authenticate a r) = [''id'' \<mapsto> v]"
    and "get_prop (auth_credentials (authenticate a r)) ''id'' = v"
    and "params (authenticate a r) = params r"
    and "payload (authenticate a r) = payload r"
  using assms by (simp_all add: validate_def authenticate_def get_prop_def)

lemma token_without_id:
  assumes "decoded_payload a ''id'' = None"
  shows "get_prop (auth_credentials (authenticate a r)) ''id'' = JUndefined"
  using assms by (simp add: validate_def authenticate_def get_prop_def)

lemma AddComment_success:
  assumes "AddCommentUseCase_execute verifyThreadExists idGenerator p db = (Inr added, db')"
  shows "added_owner added = get_prop p ''userId'' \<and>
         (\<exists>row. comments db' = comments db @ [row] \<and> comment_owner row = get_prop p ''userId'' \<and>
            comment_id row = added_id added \<and> comment_thread row = get_prop p ''threadId'')"
  using assms
  by (auto simp: AddCommentUseCase_execute_def split: sum.splits option.splits jsval.splits)

lemma postCommentHandler_success:
  assumes "postCommentHandler uc r db = (Inr ret, db')"
  shows "\<exists>added. uc (postCommentPayload r) db = (Inr added, db') \<and>
           data (source (toResponse ret)) = Some [(''addedComment'', added)]"
  using assms
  by (auto simp: postCommentHandler_def h_response_def code_def split: prod.splits sum.splits)

text \<open>
  C9. On an authenticated route the strategy always accepts the verified token and makes
  the \<open>id\<close> of its decoded payload the only credential. For every token payload that holds
  an \<open>id\<close> \<open>v\<close> and every request, whatever its body says: the \<open>userId\<close> of the use-case
  payload that either handler builds is \<open>v\<close>; when the POST handler succeeds with the
  use case that adds a comment, the row it has inserted has the owner \<open>v\<close>, and so has the
  added comment of the response; and the DELETE handler with the use case that deletes a
  comment succeeds on an existing comment when its owner is \<open>v\<close> and fails with the
  authorization error, the store unchanged, when its owner is not \<open>v\<close>. For a token payload
  without \<open>id\<close> the \<open>userId\<close> is \<open>undefined\<close>. For every use case whatsoever, the handler runs
  it on that payload: it fails with the use case's error or succeeds with it, and leaves the
  store the use case left.
\<close>

theorem C9_acting_user_is_token_id:
  "(decoded_payload a ''id'' = Some v \<longrightarrow>
      isValid (validate a) \<and>
      credentials (validate a) = [''id'' \<mapsto> v] \<and>
      auth_credentials (authenticate a r) = [''id'' \<mapsto> v] \<and>
      postCommentPayload (authenticate a r) ''userId'' = Some v \<and>
      deleteCommentPayload (authenticate a r) ''userId'' = Some v \<and>
      (\<forall>ret db'.
          postCommentHandler (AddCommentUseCase_execute verifyThreadExists idGenerator)
            (authenticate a r) db = (Inr ret, db') \<longrightarrow>
          (\<exists>row added. comments db' = comments db @ [row] \<and> comment_owner row = v \<and>
             data (source (toResponse ret)) = Some [(''addedComment'', added)] \<and>
             added_owner added = v)) \<and>
      (\<forall>row. find (\<lambda>row. comment_id row = get_prop (params r) ''commentId'') (comments db) = Some row \<longrightarrow>
          (comment_owner row = v \<longrightarrow>
             (deleteCommentHandler DeleteCommentUseCase_execute (authenticate a r) db
                :: (error + unit body handler_return) \<times> store) =
               (Inr (Plain \<lparr>status = ''success'', message = None, data = None\<rparr>),
                deleteComment (get_prop (params r) ''commentId'') db)) \<and>
          (comment_owner row \<noteq> v \<longrightarrow>
             (deleteCommentHandler DeleteCommentUseCase_execute (authenticate a r) db
                :: (error + unit body handler_return) \<times> store) = (Inl not_comment_owner, db)))) \<and>
   (decoded_payload a ''id'' = None \<longrightarrow>
      postCommentPayload (authenticate a r) ''userId'' = Some JUndefined \<and>
      deleteCommentPayload (authenticate a r) ''userId'' = Some JUndefined) \<and>
   map_sum id (\<lambda>_. ()) (fst (postCommentHandler addCommentUseCase (authenticate a r) gdb)) =
     map_sum id (\<lambda>_. ()) (fst (addCommentUseCase (postCommentPayload (authenticate a r)) gdb)) \<and>
   snd (postCommentHandler addCommentUseCase (authenticate a r) gdb) =
     snd (addCommentUseCase (postCommentPayload (authenticate a r)) gdb) \<and>
   map_sum id (\<lambda>_. ())
       (fst (deleteCommentHandler deleteCommentUseCase (authenticate a r) gdb
          :: (error + unit body handler_return) \<times> 'db)) =
     map_sum id (\<lambda>_. ()) (fst (deleteCommentUseCase (deleteCommentPayload (authenticate a r)) gdb)) \<and>
   snd (deleteCommentHandler deleteCommentUseCase (authenticate a r) gdb
          :: (error + unit body handler_return) \<times> 'db) =
     snd (deleteCommentUseCase (deleteCommentPayload (authenticate a r)) gdb)"
proof (intro conjI impI allI)
  assume tok: "decoded_payload a ''id'' = Some v"
  note cred = token_id_credentials [OF tok]
  show "isValid (validate a)" by (simp add: validate_def)
  show "credentials (validate a) = [''id'' \<mapsto> v]" by (rule cred(1))
  show "auth_credentials (authenticate a r) = [''id'' \<mapsto> v]" by (rule cred(2))
  show post: "postCommentPayload (authenticate a r) ''userId'' = Some v"
    by (simp add: postCommentPayload_def cred(3))
  show del: "deleteCommentPayload (authenticate a r) ''userId'' = Some v"
    by (simp add: deleteCommentPayload_def cred(3))
  have uid: "get_prop (postCommentPayload (authenticate a r)) ''userId'' = v"
    using post by (simp add: get_prop_def)
  show "\<exists>row added. comments db' = comments db @ [row] \<and> comment_owner row = v \<and>
             data (source (toResponse ret)) = Some [(''addedComment'', added)] \<and>
             added_owner added = v"
    if h: "postCommentHandler (AddCommentUseCase_execute verifyThreadExists idGenerator)
            (authenticate a r) db = (Inr ret, db')" for ret db'
  proof -
    from postCommentHandler_success [OF h] obtain added where
      run: "AddCommentUseCase_execute verifyThreadExists idGenerator
              (postCommentPayload (authenticate a r)) db = (Inr added, db')"
      and body: "data (source (toResponse ret)) = Some [(''addedComment'', added)]"
      by blast
    from AddComment_success [OF run] uid obtain row where
      "comments db' = comments db @ [row]" "comment_owner row = v" "added_owner added = v"
      by auto
    with body show ?thesis by blast
  qed
  have did: "get_prop (deleteCommentPayload (authenticate a r)) ''id'' = get_prop (params r) ''commentId''"
    and duid: "get_prop (deleteCommentPayload (authenticate a r)) ''userId'' = v"
    by (simp_all add: deleteCommentPayload_def cred(2) cred(4) get_prop_def)
  show "(deleteCommentHandler DeleteCommentUseCase_execute (authenticate a r) db
          :: (error + unit body handler_return) \<times> store) =
        (Inr (Plain \<lparr>status = ''success'', message = None, data = None\<rparr>),
         deleteComment (get_prop (params r) ''commentId'') db)"
    if "find (\<lambda>row. comment_id row = get_prop (params r) ''commentId'') (comments db) = Some row"
      and "comment_owner row = v" for row
    using that
    by (simp add: deleteCommentHandler_def DeleteCommentUseCase_execute_def verifyCommentOwner_def
        did duid)
  show "(deleteCommentHandler DeleteCommentUseCase_execute (authenticate a r) db
          :: (error + unit body handler_return) \<times> store) = (Inl not_comment_owner, db)"
    if "find (\<lambda>row. comment_id row = get_prop (params r) ''commentId'') (comments db) = Some row"
      and "comment_owner row \<noteq> v" for row
    using that
    by (simp add: deleteCommentHandler_def DeleteCommentUseCase_execute_def verifyCommentOwner_def
        did duid)
next
  assume "decoded_payload a ''id'' = None"
  note none = token_without_id [OF this, of r]
  show "postCommentPayload (authenticate a r) ''userId'' = Some JUndefined"
    by (simp add: postCommentPayload_def none)
  show "deleteCommentPayload (authenticate a r) ''userId'' = Some JUndefined"
    by (simp add: deleteCommentPayload_def none)
next
  show "map_sum id (\<lambda>_. ()) (fst (postCommentHandler addCommentUseCase (authenticate a r) gdb)) =
     map_sum id (\<lambda>_. ()) (fst (addCommentUseCase (postCommentPayload (authenticate a r)) gdb))"
    by (simp add: postCommentHandler_def split: prod.split sum.split)
  show "snd (postCommentHandler addCommentUseCase (authenticate a r) gdb) =
     snd (addCommentUseCase (postCommentPayload (authenticate a r)) gdb)"
    by (simp add: postCommentHandler_def split: prod.split sum.split)
  show "map_sum id (\<lambda>_. ())
       (fst (deleteCommentHandler deleteCommentUseCase (authenticate a r) gdb
          :: (error + unit body handler_return) \<times> 'db)) =
     map_sum id (\<lambda>_. ()) (fst (deleteCommentUseCase (deleteCommentPayload (authenticate a r)) gdb))"
    by (simp add: deleteCommentHandler_def split: prod.split sum.split)
  show "snd (deleteCommentHandler deleteCommentUseCase (authenticate a r) gdb
          :: (error + unit body handler_return) \<times> 'db) =
     snd (deleteCommentUseCase (deleteCommentPayload (authenticate a r)) gdb)"
    by (simp add: deleteCommentHandler_def split: prod.split sum.split)
qed


theorem C9_acting_user_is_token_id_witness:
  "postCommentPayload
     (authenticate \<lparr>decoded_payload = [''id'' \<mapsto> JStr ''user-123'', ''iat'' \<mapsto> JNum 1700000000]\<rparr>
        \<lparr>payload = [''content'' \<mapsto> JStr ''sebuah comment'', ''userId'' \<mapsto> JStr ''user-999''],
         params = [''threadId'' \<mapsto> JStr ''thread-123'', ''commentId'' \<mapsto> JStr ''comment-123''],
         auth_credentials = Map.empty\<rparr>) ''userId'' = Some (JStr ''user-123'') \<and>
   map comment_owner (comments (snd
     (postCommentHandler (AddCommentUseCase_execute (\<lambda>t db. None) ''comment-123'')
        (authenticate \<lparr>decoded_payload = [''id'' \<mapsto> JStr ''user-123'', ''iat'' \<mapsto> JNum 1700000000]\<rparr>
           \<lparr>payload = [''content'' \<mapsto> JStr ''sebuah comment'', ''userId'' \<mapsto> JStr ''user-999''],
            params = [''threadId'' \<mapsto> JStr ''thread-123'', ''commentId'' \<mapsto> JStr ''comment-123''],
            auth_credentials = Map.empty\<rparr>)
        \<lparr>users = [], comments = [], replies = [], comment_likes = []\<rparr>))) = [JStr ''user-123''] \<and>
   (deleteCommentHandler DeleteCommentUseCase_execute
      (authenticate \<lparr>decoded_payload = [''id'' \<mapsto> JStr ''user-123'', ''iat'' \<mapsto> JNum 1700000000]\<rparr>
         \<lparr>payload = [''content'' \<mapsto> JStr ''sebuah comment'', ''userId'' \<mapsto> JStr ''user-999''],
          params = [''threadId'' \<mapsto> JStr ''thread-123'', ''commentId'' \<mapsto> JStr ''comment-123''],
          auth_credentials = Map.empty\<rparr>)
      \<lparr>users = [],
       comments = [\<lparr>comment_id = JStr ''comment-123'', comment_thread = JStr ''thread-123'',
                    comment_owner = JStr ''user-123'', comment_content = ''sebuah comment'',
                    comment_is_delete = False\<rparr>],
       replies = [], comment_likes = []\<rparr>
     :: (error + unit body handler_return) \<times> store)
    = (Inr (Plain \<lparr>status = ''success'', message = None, data = None\<rparr>),
       \<lparr>users = [],
        comments = [\<lparr>comment_id = JStr ''comment-123'', comment_thread = JStr ''thread-123'',
                     comment_owner = JStr ''user-123'', comment_content = ''sebuah comment'',
                     comment_is_delete = True\<rparr>],
        replies = [], comment_likes = []\<rparr>) \<and>
   (deleteCommentHandler DeleteCommentUseCase_execute
      (authenticate \<lparr>decoded_payload = [''id'' \<mapsto> JStr ''user-456'']\<rparr>
         \<lparr>payload = [''content'' \<mapsto> JStr ''sebuah comment'', ''userId'' \<mapsto> JStr ''user-999''],
          params = [''threadId'' \<mapsto> JStr ''thread-123'', ''commentId'' \<mapsto> JStr ''comment-123''],
          auth_credentials = Map.empty\<rparr>)
      \<lparr>users = [],
       comments = [\<lparr>comment_id = JStr ''comment-123'', comment_thread = JStr ''thread-123'',
                    comment_owner = JStr ''user-123'', comment_content = ''sebuah comment'',
                    comment_is_delete = False\<rparr>],
       replies = [], comment_likes = []\<rparr>
     :: (error + unit body handler_return) \<times> store)
    = (Inl (AuthorizationError ''not the owner of the comment''),
       \<lparr>users = [],
        comments = [\<lparr>comment_id = JStr ''comment-123'', comment_thread = JStr ''thread-123'',
                     comment_owner = JStr ''user-123'', comment_content = ''sebuah comment'',
                     comment_is_delete = False\<rparr>],
        replies = [], comment_likes = []\<rparr>) \<and>
   postCommentPayload
     (authenticate \<lparr>decoded_payload = [''sub'' \<mapsto> JStr ''user-123'']\<rparr>
        \<lparr>payload = [''content'' \<mapsto> JStr ''sebuah comment'', ''userId'' \<mapsto> JStr ''user-999''],
         params = [''threadId'' \<mapsto> JStr ''thread-123'', ''commentId'' \<mapsto> JStr ''comment-123''],
         auth_credentials = Map.empty\<rparr>) ''userId'' = Some JUndefined"
proof -
  let ?a = "\<lparr>decoded_payload = [''id'' \<mapsto> JStr ''user-123'', ''iat'' \<mapsto> JNum 1700000000]\<rparr>"
  let ?a2 = "\<lparr>decoded_payload = [''id'' \<mapsto> JStr ''user-456'']\<rparr>"
  let ?a3 = "\<lparr>decoded_payload = [''sub'' \<mapsto> JStr ''user-123'']\<rparr>"
  let ?r = "\<lparr>payload = [''content'' \<mapsto> JStr ''sebuah comment'', ''userId'' \<mapsto> JStr ''user-999''],
         params = [''threadId'' \<mapsto> JStr ''thread-123'', ''commentId'' \<mapsto> JStr ''comment-123''],
         auth_credentials = Map.empty\<rparr>"
  let ?crow = "\<lparr>comment_id = JStr ''comment-123'', comment_thread = JStr ''thread-123'',
                    comment_owner = JStr ''user-123'', comment_content = ''sebuah comment'',
                    comment_is_delete = False\<rparr>"
  let ?empty = "\<lparr>users = [], comments = [], replies = [], comment_likes = []\<rparr>"
  let ?db = "\<lparr>users = [], comments = [?crow], replies = [], comment_likes = []\<rparr>"
  let ?add = "AddCommentUseCase_execute (\<lambda>t db. None) ''comment-123''"
  have tok: "decoded_payload ?a ''id'' = Some (JStr ''user-123'')" by simp
  have tok2: "decoded_payload ?a2 ''id'' = Some (JStr ''user-456'')" by simp
  have tok3: "decoded_payload ?a3 ''id'' = None" by simp
  note t = mp [OF C9_acting_user_is_token_id
      [where a = ?a and v = "JStr ''user-123''" and r = ?r and db = ?empty
         and verifyThreadExists = "\<lambda>t db. None" and idGenerator = "''comment-123''",
       THEN conjunct1] tok]
  note td = mp [OF C9_acting_user_is_token_id
      [where a = ?a and v = "JStr ''user-123''" and r = ?r and db = ?db, THEN conjunct1] tok]
  note t2 = mp [OF C9_acting_user_is_token_id
      [where a = ?a2 and v = "JStr ''user-456''" and r = ?r and db = ?db, THEN conjunct1] tok2]
  note t3 = mp [OF C9_acting_user_is_token_id
      [where a = ?a3 and r = ?r, THEN conjunct2, THEN conjunct1] tok3]
  from t have w1: "postCommentPayload (authenticate ?a ?r) ''userId'' = Some (JStr ''user-123'')"
    by blast
  obtain ret db' where run: "postCommentHandler ?add (authenticate ?a ?r) ?empty = (Inr ret, db')"
    by (simp add: postCommentHandler_def AddCommentUseCase_execute_def construct_def
        verifyPayload_def NewComment_fields_def postCommentPayload_def authenticate_def
        validate_def get_prop_def restrict_map_def)
  from t have "\<forall>ret db'. postCommentHandler ?add (authenticate ?a ?r) ?empty = (Inr ret, db') \<longrightarrow>
      (\<exists>row added. comments db' = comments ?empty @ [row] \<and> comment_owner row = JStr ''user-123'' \<and>
         data (source (toResponse ret)) = Some [(''addedComment'', added)] \<and>
         added_owner added = JStr ''user-123'')"
    by blast
  with run obtain row where "comments db' = comments ?empty @ [row]"
    and "comment_owner row = JStr ''user-123''"
    by blast
  then have "map comment_owner (comments db') = [JStr ''user-123'']"
    by simp
  moreover from run have "snd (postCommentHandler ?add (authenticate ?a ?r) ?empty) = db'"
    by simp
  ultimately have w2: "map comment_owner
      (comments (snd (postCommentHandler ?add (authenticate ?a ?r) ?empty))) = [JStr ''user-123'']"
    by simp
  have found: "find (\<lambda>row. comment_id row = get_prop (params ?r) ''commentId'') (comments ?db) = Some ?crow"
    by (simp add: get_prop_def)
  from td found have "(deleteCommentHandler DeleteCommentUseCase_execute (authenticate ?a ?r) ?db
       :: (error + unit body handler_return) \<times> store) =
      (Inr (Plain \<lparr>status = ''success'', message = None, data = None\<rparr>),
       deleteComment (get_prop (params ?r) ''commentId'') ?db)"
    by simp
  then have w3: "(deleteCommentHandler DeleteCommentUseCase_execute (authenticate ?a ?r) ?db
       :: (error + unit body handler_return) \<times> store) =
      (Inr (Plain \<lparr>status = ''success'', message = None, data = None\<rparr>),
       \<lparr>users = [], comments = [?crow\<lparr>comment_is_delete := True\<rparr>], replies = [],
        comment_likes = []\<rparr>)"
    by (simp add: deleteComment_def get_prop_def)
  from t2 found have w4: "(deleteCommentHandler DeleteCommentUseCase_execute (authenticate ?a2 ?r) ?db
       :: (error + unit body handler_return) \<times> store) = (Inl not_comment_owner, ?db)"
    by simp
  from t3 have w5: "postCommentPayload (authenticate ?a3 ?r) ''userId'' = Some JUndefined"
    by blast
  from w1 w2 w3 w4 w5 show ?thesis
    by (simp add: not_comment_owner_def)
qed

text \<open>
  C10. Two POST-comment requests with the same route params and the same credentials,
  whose bodies agree on every property other than \<open>threadId\<close> and \<open>userId\<close>, give the same
  use-case payload; in that payload \<open>threadId\<close> is the route's and \<open>userId\<close> the
  credentials', whatever the body says, and every other property is the body's.
\<close>

theorem C10_body_cannot_override:
  assumes "params r1 = params r2"
    and "auth_credentials r1 = auth_credentials r2"
    and "\<forall>k. k \<noteq> ''threadId'' \<and> k \<noteq> ''userId'' \<longrightarrow> payload r1 k = payload r2 k"
  shows "postCommentPayload r1 = postCommentPayload r2 \<and>
         postCommentPayload r1 ''threadId'' = Some (get_prop (params r1) ''threadId'') \<and>
         postCommentPayload r1 ''userId'' = Some (get_prop (auth_credentials r1) ''id'') \<and>
         (\<forall>k. k \<noteq> ''threadId'' \<and> k \<noteq> ''userId'' \<longrightarrow>
              postCommentPayload r1 k = payload r1 k)"
proof -
  have "postCommentPayload r1 k = postCommentPayload r2 k" for k
    using assms by (simp add: postCommentPayload_def)
  then have same: "postCommentPayload r1 = postCommentPayload r2"
    by (rule ext)
  have overwritten: "postCommentPayload r1 ''threadId'' = Some (get_prop (params r1) ''threadId'') \<and>
      postCommentPayload r1 ''userId'' = Some (get_prop (auth_credentials r1) ''id'') \<and>
      (\<forall>k. k \<noteq> ''threadId'' \<and> k \<noteq> ''userId'' \<longrightarrow>
           postCommentPayload r1 k = payload r1 k)"
    by (simp add: postCommentPayload_def)
  from same overwritten show ?thesis
    by (rule conjI)
qed

theorem C10_body_cannot_override_witness:
  "payload \<lparr>payload = [''content'' \<mapsto> JStr ''sebuah comment''],
            params = [''threadId'' \<mapsto> JStr ''thread-123''],
            auth_credentials = [''id'' \<mapsto> JStr ''user-123'']\<rparr> \<noteq>
   payload \<lparr>payload = [''content'' \<mapsto> JStr ''sebuah comment'',
                       ''threadId'' \<mapsto> JStr ''thread-999'', ''userId'' \<mapsto> JStr ''user-999''],
            params = [''threadId'' \<mapsto> JStr ''thread-123''],
            auth_credentials = [''id'' \<mapsto> JStr ''user-123'']\<rparr> \<and>
   postCommentPayload
     \<lparr>payload = [''content'' \<mapsto> JStr ''sebuah comment''],
      params = [''threadId'' \<mapsto> JStr ''thread-123''],
      auth_credentials = [''id'' \<mapsto> JStr ''user-123'']\<rparr> =
   postCommentPayload
     \<lparr>payload = [''content'' \<mapsto> JStr ''sebuah comment'',
                 ''threadId'' \<mapsto> JStr ''thread-999'', ''userId'' \<mapsto> JStr ''user-999''],
      params = [''threadId'' \<mapsto> JStr ''thread-123''],
      auth_credentials = [''id'' \<mapsto> JStr ''user-123'']\<rparr> \<and>
   postCommentPayload
     \<lparr>payload = [''content'' \<mapsto> JStr ''sebuah comment'',
                 ''threadId'' \<mapsto> JStr ''thread-999'', ''userId'' \<mapsto> JStr ''user-999''],
      params = [''threadId'' \<mapsto> JStr ''thread-123''],
      auth_credentials = [''id'' \<mapsto> JStr ''user-123'']\<rparr> ''userId'' = Some (JStr ''user-123'')"
proof -
  let ?r1 = "\<lparr>payload = [''content'' \<mapsto> JStr ''sebuah comment''],
      params = [''threadId'' \<mapsto> JStr ''thread-123''],
      auth_credentials = [''id'' \<mapsto> JStr ''user-123'']\<rparr>"
  let ?r2 = "\<lparr>payload = [''content'' \<mapsto> JStr ''sebuah comment'',
                 ''threadId'' \<mapsto> JStr ''thread-999'', ''userId'' \<mapsto> JStr ''user-999''],
      params = [''threadId'' \<mapsto> JStr ''thread-123''],
      auth_credentials = [''id'' \<mapsto> JStr ''user-123'']\<rparr>"
  have h1: "params ?r1 = params ?r2" by simp
  have h2: "auth_credentials ?r1 = auth_credentials ?r2" by simp
  have h3: "\<forall>k. k \<noteq> ''threadId'' \<and> k \<noteq> ''userId'' \<longrightarrow> payload ?r1 k = payload ?r2 k"
    by simp
  have ne: "payload ?r1 \<noteq> payload ?r2"
  proof
    assume "payload ?r1 = payload ?r2"
    then have "payload ?r1 ''userId'' = payload ?r2 ''userId''" by (rule arg_cong)
    then show False by simp
  qed
  from C10_body_cannot_override [OF h1 h2 h3] ne
  show ?thesis by (simp add: postCommentPayload_def get_prop_def)
qed

section \<open>Entity validation\<close>

lemma list_ex_missing:
  "list_ex (\<lambda>(k, t). get_prop p k = JUndefined) declared \<longleftrightarrow>
     (\<exists>k t. (k, t) \<in> set declared \<and> get_prop p k = JUndefined)"
  by (auto simp: list_ex_iff)

lemma list_ex_wrong_type:
  "list_ex (\<lambda>(k, t). \<not> typeof_is t (get_prop p k)) declared \<longleftrightarrow>
     (\<exists>k t. (k, t) \<in> set declared \<and> \<not> typeof_is t (get_prop p k))"
  by (auto simp: list_ex_iff)

lemma construct_missing:
  assumes "(k, t) \<in> set declared" and "get_prop p k = JUndefined"
  shows "construct entity declared p = Inl (Error (entity @ ''.NOT_CONTAIN_NEEDED_PROPERTY''))"
  using assms by (auto simp: construct_def verifyPayload_def list_ex_missing)

lemma construct_wrong_type:
  assumes "\<forall>(k, t) \<in> set declared. get_prop p k \<noteq> JUndefined"
    and "(k, t) \<in> set declared" and "\<not> typeof_is t (get_prop p k)"
  shows "construct entity declared p = Inl (Error (entity @ ''.NOT_MEET_DATA_TYPE_SPECIFICATION''))"
  using assms by (auto simp: construct_def verifyPayload_def list_ex_missing list_ex_wrong_type)

lemma construct_Inr:
  assumes "construct entity declared p = Inr obj"
  shows "dom obj = fst ` set declared"
    and "\<And>k. k \<in> fst ` set declared \<Longrightarrow> obj k = p k \<and> get_prop obj k = get_prop p k"
    and "\<And>k t. (k, t) \<in> set declared \<Longrightarrow> typeof_is t (get_prop p k)"
proof -
  from assms have ok: "verifyPayload entity declared p = None"
    and obj: "obj = p |` set (map fst declared)"
    by (auto simp: construct_def split: option.splits)
  from ok have present: "\<And>k t. (k, t) \<in> set declared \<Longrightarrow> get_prop p k \<noteq> JUndefined"
    and typed: "\<And>k t. (k, t) \<in> set declared \<Longrightarrow> typeof_is t (get_prop p k)"
    by (auto simp: verifyPayload_def list_ex_missing list_ex_wrong_type split: if_splits)
  show "\<And>k t. (k, t) \<in> set declared \<Longrightarrow> typeof_is t (get_prop p k)" by (rule typed)
  show "\<And>k. k \<in> fst ` set declared \<Longrightarrow> obj k = p k \<and> get_prop obj k = get_prop p k"
    by (auto simp: obj get_prop_def restrict_map_def)
  show "dom obj = fst ` set declared"
  proof
    show "dom obj \<subseteq> fst ` set declared" by (auto simp: obj restrict_map_def split: if_splits)
    show "fst ` set declared \<subseteq> dom obj"
    proof
      fix k assume "k \<in> fst ` set declared"
      then obtain t where kt: "(k, t) \<in> set declared" by auto
      from present [OF kt] have "p k \<noteq> None" by (auto simp: get_prop_def split: option.splits)
      with kt show "k \<in> dom obj" by (force simp: obj restrict_map_def)
    qed
  qed
qed

lemma RegisterUser_Inr_iff:
  "RegisterUser p = Inr ru \<longleftrightarrow>
     get_prop p ''username'' = JStr (username ru) \<and>
     get_prop p ''password'' = JStr (password ru) \<and>
     get_prop p ''fullname'' = JStr (fullname ru)"
proof
  assume a: "RegisterUser p = Inr ru"
  then show "get_prop p ''username'' = JStr (username ru) \<and>
     get_prop p ''password'' = JStr (password ru) \<and>
     get_prop p ''fullname'' = JStr (fullname ru)"
    by (auto simp: RegisterUser_def RegisterUser_fields_def construct_def verifyPayload_def
        get_prop_def restrict_map_def split: sum.splits option.splits jsval.splits if_splits)
next
  assume a: "get_prop p ''username'' = JStr (username ru) \<and>
     get_prop p ''password'' = JStr (password ru) \<and>
     get_prop p ''fullname'' = JStr (fullname ru)"
  then have "verifyPayload ''REGISTER_USER'' RegisterUser_fields p = None"
    by (simp add: verifyPayload_def RegisterUser_fields_def)
  with a show "RegisterUser p = Inr ru"
    by (auto simp: RegisterUser_def RegisterUser_fields_def construct_def
        get_prop_def restrict_map_def split: option.splits)
qed

lemma RegisterUser_missing:
  assumes "get_prop p ''username'' = JUndefined \<or> get_prop p ''password'' = JUndefined \<or>
     get_prop p ''fullname'' = JUndefined"
  shows "RegisterUser p = Inl (Error ''REGISTER_USER.NOT_CONTAIN_NEEDED_PROPERTY'')"
  using assms
  by (auto simp: RegisterUser_def RegisterUser_fields_def construct_def verifyPayload_def)

lemma RegisterUser_wrong_type:
  assumes "get_prop p ''username'' \<noteq> JUndefined" "get_prop p ''password'' \<noteq> JUndefined"
     "get_prop p ''fullname'' \<noteq> JUndefined"
     "\<not> typeof_is TString (get_prop p ''username'') \<or> \<not> typeof_is TString (get_prop p ''password'')
       \<or> \<not> typeof_is TString (get_prop p ''fullname'')"
  shows "RegisterUser p = Inl (Error ''REGISTER_USER.NOT_MEET_DATA_TYPE_SPECIFICATION'')"
  using assms
  by (auto simp: RegisterUser_def RegisterUser_fields_def construct_def verifyPayload_def)


text \<open>
  C4. For every entity, with its declared fields, and every raw payload, case by case:
  when a declared field is missing, whatever the rest of the payload, construction fails
  with the entity's \<open>NOT_CONTAIN_NEEDED_PROPERTY\<close> error, the kind by which the error names
  the missing property (one code for the entity, as the table of DomainErrorTranslator keys
  it); when no declared field is missing and one of them has the wrong primitive type,
  construction fails with the entity's \<open>NOT_MEET_DATA_TYPE_SPECIFICATION\<close> error; and when
  construction succeeds, the entity has exactly the declared fields, each with the value
  the payload gave (no default is invented). The same for RegisterUser, whose fields are
  username, password and fullname, all strings; its two error codes are those that the
  table translates to the validation error (\<open>InvariantError\<close>), unless an elided entry
  repeats the code.
\<close>

theorem C4_entity_validation:
  "((\<exists>k t. (k, t) \<in> set declared \<and> get_prop p k = JUndefined) \<longrightarrow>
      construct entity declared p = Inl (Error (entity @ ''.NOT_CONTAIN_NEEDED_PROPERTY''))) \<and>
   ((\<forall>k t. (k, t) \<in> set declared \<longrightarrow> get_prop p k \<noteq> JUndefined) \<and>
    (\<exists>k t. (k, t) \<in> set declared \<and> \<not> typeof_is t (get_prop p k)) \<longrightarrow>
      construct entity declared p = Inl (Error (entity @ ''.NOT_MEET_DATA_TYPE_SPECIFICATION''))) \<and>
   (\<forall>obj. construct entity declared p = Inr obj \<longrightarrow>
      dom obj = fst ` set declared \<and> (\<forall>k. k \<in> fst ` set declared \<longrightarrow> obj k = p k)) \<and>
   (get_prop p ''username'' = JUndefined \<or> get_prop p ''password'' = JUndefined \<or>
      get_prop p ''fullname'' = JUndefined \<longrightarrow>
      RegisterUser p = Inl (Error ''REGISTER_USER.NOT_CONTAIN_NEEDED_PROPERTY'')) \<and>
   (get_prop p ''username'' \<noteq> JUndefined \<and> get_prop p ''password'' \<noteq> JUndefined \<and>
    get_prop p ''fullname'' \<noteq> JUndefined \<and>
    (\<not> typeof_is TString (get_prop p ''username'') \<or> \<not> typeof_is TString (get_prop p ''password'') \<or>
     \<not> typeof_is TString (get_prop p ''fullname'')) \<longrightarrow>
      RegisterUser p = Inl (Error ''REGISTER_USER.NOT_MEET_DATA_TYPE_SPECIFICATION'')) \<and>
   (\<forall>ru. RegisterUser p = Inr ru \<longrightarrow>
      get_prop p ''username'' = JStr (username ru) \<and>
      get_prop p ''password'' = JStr (password ru) \<and>
      get_prop p ''fullname'' = JStr (fullname ru)) \<and>
   (''REGISTER_USER.NOT_CONTAIN_NEEDED_PROPERTY'' \<notin> dom elided \<longrightarrow>
      translate (translation_table elided) (Error ''REGISTER_USER.NOT_CONTAIN_NEEDED_PROPERTY'') =
        InvariantError ''tidak dapat membuat user baru karena properti yang dibutuhkan tidak ada'') \<and>
   (''REGISTER_USER.NOT_MEET_DATA_TYPE_SPECIFICATION'' \<notin> dom elided \<longrightarrow>
      translate (translation_table elided) (Error ''REGISTER_USER.NOT_MEET_DATA_TYPE_SPECIFICATION'') =
        InvariantError ''tidak dapat membuat user baru karena tipe data tidak sesuai'')"
proof (intro conjI impI allI)
  assume "\<exists>k t. (k, t) \<in> set declared \<and> get_prop p k = JUndefined"
  then show "construct entity declared p = Inl (Error (entity @ ''.NOT_CONTAIN_NEEDED_PROPERTY''))"
    using construct_missing by blast
next
  assume a: "(\<forall>k t. (k, t) \<in> set declared \<longrightarrow> get_prop p k \<noteq> JUndefined) \<and>
    (\<exists>k t. (k, t) \<in> set declared \<and> \<not> typeof_is t (get_prop p k))"
  then have "\<forall>(k, t) \<in> set declared. get_prop p k \<noteq> JUndefined" by auto
  with a show "construct entity declared p = Inl (Error (entity @ ''.NOT_MEET_DATA_TYPE_SPECIFICATION''))"
    using construct_wrong_type by blast
next
  fix obj assume "construct entity declared p = Inr obj"
  then show "dom obj = fst ` set declared"
    by (rule construct_Inr(1))
next
  fix obj k assume "construct entity declared p = Inr obj" and "k \<in> fst ` set declared"
  then show "obj k = p k"
    using construct_Inr(2) by blast
next
  assume "get_prop p ''username'' = JUndefined \<or> get_prop p ''password'' = JUndefined \<or>
      get_prop p ''fullname'' = JUndefined"
  then show "RegisterUser p = Inl (Error ''REGISTER_USER.NOT_CONTAIN_NEEDED_PROPERTY'')"
    by (rule RegisterUser_missing)
next
  assume "get_prop p ''username'' \<noteq> JUndefined \<and> get_prop p ''password'' \<noteq> JUndefined \<and>
    get_prop p ''fullname'' \<noteq> JUndefined \<and>
    (\<not> typeof_is TString (get_prop p ''username'') \<or> \<not> typeof_is TString (get_prop p ''password'') \<or>
     \<not> typeof_is TString (get_prop p ''fullname''))"
  then show "RegisterUser p = Inl (Error ''REGISTER_USER.NOT_MEET_DATA_TYPE_SPECIFICATION'')"
    using RegisterUser_wrong_type by blast
next
  fix ru assume a: "RegisterUser p = Inr ru"
  then show "get_prop p ''username'' = JStr (username ru)"
    and "get_prop p ''password'' = JStr (password ru)"
    and "get_prop p ''fullname'' = JStr (fullname ru)"
    by (simp_all add: RegisterUser_Inr_iff)
next
  assume "''REGISTER_USER.NOT_CONTAIN_NEEDED_PROPERTY'' \<notin> dom elided"
  then have "elided ''REGISTER_USER.NOT_CONTAIN_NEEDED_PROPERTY'' = None"
    by (simp add: domIff)
  then show "translate (translation_table elided) (Error ''REGISTER_USER.NOT_CONTAIN_NEEDED_PROPERTY'') =
        InvariantError ''tidak dapat membuat user baru karena properti yang dibutuhkan tidak ada''"
    by (simp add: translate_def translation_table_def map_add_def)
next
  assume "''REGISTER_USER.NOT_MEET_DATA_TYPE_SPECIFICATION'' \<notin> dom elided"
  then have "elided ''REGISTER_USER.NOT_MEET_DATA_TYPE_SPECIFICATION'' = None"
    by (simp add: domIff)
  then show "translate (translation_table elided) (Error ''REGISTER_USER.NOT_MEET_DATA_TYPE_SPECIFICATION'') =
        InvariantError ''tidak dapat membuat user baru karena tipe data tidak sesuai''"
    by (simp add: translate_def translation_table_def map_add_def)
qed

theorem C4_entity_validation_witness:
  "RegisterUser [''username'' \<mapsto> JStr ''dicoding'', ''password'' \<mapsto> JStr ''secret'']
     = Inl (Error ''REGISTER_USER.NOT_CONTAIN_NEEDED_PROPERTY'') \<and>
   RegisterUser [''username'' \<mapsto> JNum 123, ''password'' \<mapsto> JStr ''secret'',
                 ''fullname'' \<mapsto> JStr ''Dicoding Indonesia'']
     = Inl (Error ''REGISTER_USER.NOT_MEET_DATA_TYPE_SPECIFICATION'') \<and>
   construct ''REGISTER_USER'' RegisterUser_fields
       [''username'' \<mapsto> JStr ''dicoding'', ''password'' \<mapsto> JStr ''secret'']
     = Inl (Error ''REGISTER_USER.NOT_CONTAIN_NEEDED_PROPERTY'') \<and>
   construct ''REGISTER_USER'' RegisterUser_fields
       [''username'' \<mapsto> JNum 123, ''password'' \<mapsto> JStr ''secret'',
        ''fullname'' \<mapsto> JStr ''Dicoding Indonesia'']
     = Inl (Error ''REGISTER_USER.NOT_MEET_DATA_TYPE_SPECIFICATION'') \<and>
   RegisterUser [''username'' \<mapsto> JStr ''dicoding'', ''password'' \<mapsto> JStr ''secret'',
                 ''fullname'' \<mapsto> JStr ''Dicoding Indonesia'', ''admin'' \<mapsto> JBool True]
     = Inr \<lparr>username = ''dicoding'', password = ''secret'', fullname = ''Dicoding Indonesia''\<rparr> \<and>
   dom (projr (construct ''REGISTER_USER'' RegisterUser_fields
       [''username'' \<mapsto> JStr ''dicoding'', ''password'' \<mapsto> JStr ''secret'',
        ''fullname'' \<mapsto> JStr ''Dicoding Indonesia'', ''admin'' \<mapsto> JBool True]))
     = {''username'', ''password'', ''fullname''} \<and>
   translate (translation_table Map.empty) (Error ''REGISTER_USER.NOT_CONTAIN_NEEDED_PROPERTY'')
     = InvariantError ''tidak dapat membuat user baru karena properti yang dibutuhkan tidak ada'' \<and>
   translate (translation_table Map.empty) (Error ''REGISTER_USER.NOT_MEET_DATA_TYPE_SPECIFICATION'')
     = InvariantError ''tidak dapat membuat user baru karena tipe data tidak sesuai''"
proof -
  let ?missing = "[''username'' \<mapsto> JStr ''dicoding'', ''password'' \<mapsto> JStr ''secret'']"
  let ?wrong = "[''username'' \<mapsto> JNum 123, ''password'' \<mapsto> JStr ''secret'',
                 ''fullname'' \<mapsto> JStr ''Dicoding Indonesia'']"
  let ?good = "[''username'' \<mapsto> JStr ''dicoding'', ''password'' \<mapsto> JStr ''secret'',
                 ''fullname'' \<mapsto> JStr ''Dicoding Indonesia'', ''admin'' \<mapsto> JBool True]"
  have m: "\<exists>k t. (k, t) \<in> set RegisterUser_fields \<and> get_prop ?missing k = JUndefined"
    by (rule exI [of _ "''fullname''"], rule exI [of _ TString])
       (simp add: RegisterUser_fields_def get_prop_def)
  have w: "(\<forall>k t. (k, t) \<in> set RegisterUser_fields \<longrightarrow> get_prop ?wrong k \<noteq> JUndefined) \<and>
    (\<exists>k t. (k, t) \<in> set RegisterUser_fields \<and> \<not> typeof_is t (get_prop ?wrong k))"
  proof
    show "\<forall>k t. (k, t) \<in> set RegisterUser_fields \<longrightarrow> get_prop ?wrong k \<noteq> JUndefined"
      by (auto simp: RegisterUser_fields_def get_prop_def)
    show "\<exists>k t. (k, t) \<in> set RegisterUser_fields \<and> \<not> typeof_is t (get_prop ?wrong k)"
      by (rule exI [of _ "''username''"], rule exI [of _ TString])
         (simp add: RegisterUser_fields_def get_prop_def)
  qed
  have g: "construct ''REGISTER_USER'' RegisterUser_fields ?good
      = Inr (?good |` {''username'', ''password'', ''fullname''})"
    by (simp add: construct_def verifyPayload_def RegisterUser_fields_def get_prop_def)
  have gr: "RegisterUser ?good
     = Inr \<lparr>username = ''dicoding'', password = ''secret'', fullname = ''Dicoding Indonesia''\<rparr>"
    by (simp add: RegisterUser_def g get_prop_def restrict_map_def)
  note t1 = C4_entity_validation [of RegisterUser_fields ?missing "''REGISTER_USER''"]
  note t2 = C4_entity_validation [of RegisterUser_fields ?wrong "''REGISTER_USER''"]
  note t3 = C4_entity_validation [of RegisterUser_fields ?good "''REGISTER_USER''"]
  have c1: "construct ''REGISTER_USER'' RegisterUser_fields ?missing
     = Inl (Error (''REGISTER_USER'' @ ''.NOT_CONTAIN_NEEDED_PROPERTY''))"
    by (rule mp [OF t1 [THEN conjunct1] m])
  have c2: "construct ''REGISTER_USER'' RegisterUser_fields ?wrong
     = Inl (Error (''REGISTER_USER'' @ ''.NOT_MEET_DATA_TYPE_SPECIFICATION''))"
    by (rule mp [OF t2 [THEN conjunct2, THEN conjunct1] w])
  have pm: "get_prop ?missing ''username'' = JUndefined \<or> get_prop ?missing ''password'' = JUndefined \<or>
      get_prop ?missing ''fullname'' = JUndefined"
    by (simp add: get_prop_def)
  have r1: "RegisterUser ?missing = Inl (Error ''REGISTER_USER.NOT_CONTAIN_NEEDED_PROPERTY'')"
    by (rule mp [OF t1 [THEN conjunct2, THEN conjunct2, THEN conjunct2, THEN conjunct1] pm])
  have pw: "get_prop ?wrong ''username'' \<noteq> JUndefined \<and> get_prop ?wrong ''password'' \<noteq> JUndefined \<and>
    get_prop ?wrong ''fullname'' \<noteq> JUndefined \<and>
    (\<not> typeof_is TString (get_prop ?wrong ''username'') \<or>
     \<not> typeof_is TString (get_prop ?wrong ''password'') \<or>
     \<not> typeof_is TString (get_prop ?wrong ''fullname''))"
    by (simp add: get_prop_def)
  have r2: "RegisterUser ?wrong = Inl (Error ''REGISTER_USER.NOT_MEET_DATA_TYPE_SPECIFICATION'')"
    by (rule mp [OF t2 [THEN conjunct2, THEN conjunct2, THEN conjunct2, THEN conjunct2, THEN conjunct1] pw])
  have "dom (?good |` {''username'', ''password'', ''fullname''}) = fst ` set RegisterUser_fields"
    using t3 [THEN conjunct2, THEN conjunct2, THEN conjunct1, THEN spec, THEN mp, OF g]
    by (rule conjunct1)
  then have d: "dom (projr (construct ''REGISTER_USER'' RegisterUser_fields ?good))
     = {''username'', ''password'', ''fullname''}"
    by (simp only: g sum.sel) (simp add: RegisterUser_fields_def)
  from c1 c2 have c12: "construct ''REGISTER_USER'' RegisterUser_fields ?missing
     = Inl (Error ''REGISTER_USER.NOT_CONTAIN_NEEDED_PROPERTY'') \<and>
     construct ''REGISTER_USER'' RegisterUser_fields ?wrong
     = Inl (Error ''REGISTER_USER.NOT_MEET_DATA_TYPE_SPECIFICATION'')"
    by simp
  have e1: "''REGISTER_USER.NOT_CONTAIN_NEEDED_PROPERTY'' \<notin> dom (Map.empty :: string \<rightharpoonup> error)"
    and e2: "''REGISTER_USER.NOT_MEET_DATA_TYPE_SPECIFICATION'' \<notin> dom (Map.empty :: string \<rightharpoonup> error)"
    by simp_all
  have tr1: "translate (translation_table Map.empty) (Error ''REGISTER_USER.NOT_CONTAIN_NEEDED_PROPERTY'')
     = InvariantError ''tidak dapat membuat user baru karena properti yang dibutuhkan tidak ada''"
    by (rule mp [OF C4_entity_validation [where elided = Map.empty,
          THEN conjunct2, THEN conjunct2, THEN conjunct2, THEN conjunct2, THEN conjunct2,
          THEN conjunct2, THEN conjunct1] e1])
  have tr2: "translate (translation_table Map.empty) (Error ''REGISTER_USER.NOT_MEET_DATA_TYPE_SPECIFICATION'')
     = InvariantError ''tidak dapat membuat user baru karena tipe data tidak sesuai''"
    by (rule mp [OF C4_entity_validation [where elided = Map.empty,
          THEN conjunct2, THEN conjunct2, THEN conjunct2, THEN conjunct2, THEN conjunct2,
          THEN conjunct2, THEN conjunct2] e2])
  from c12 r1 r2 gr d tr1 tr2 show ?thesis by blast
qed

text \<open>
  Where a payload both lacks a required field and has another of the wrong type, the two
  cases meet; presence is verified first, so the error is the one of the missing property.
\<close>

lemma RegisterUser_missing_precedes_type:
  "get_prop [''username'' \<mapsto> JNum 123, ''password'' \<mapsto> JStr ''secret''] ''username'' = JNum 123 \<and>
   \<not> typeof_is TString (JNum 123) \<and>
   RegisterUser [''username'' \<mapsto> JNum 123, ''password'' \<mapsto> JStr ''secret'']
     \<noteq> Inl (Error ''REGISTER_USER.NOT_MEET_DATA_TYPE_SPECIFICATION'') \<and>
   RegisterUser [''username'' \<mapsto> JNum 123, ''password'' \<mapsto> JStr ''secret'']
     = Inl (Error ''REGISTER_USER.NOT_CONTAIN_NEEDED_PROPERTY'')"
  by (simp add: RegisterUser_def RegisterUser_fields_def construct_def verifyPayload_def get_prop_def)

section \<open>Registration\<close>

lemma RegisterUser_Inr_fields:
  assumes "RegisterUser p = Inr ru"
  shows "ru = \<lparr>username = username ru, password = password ru, fullname = fullname ru\<rparr>"
  by simp

lemma username_taken_iff:
  "list_ex (\<lambda>row. user_username row = u) rows \<longleftrightarrow> u \<in> user_username ` set rows"
  by (force simp: list_ex_iff)

lemma registerUser_taken:
  assumes "RegisterUser p = Inr ru" and "username ru \<in> user_username ` set (users db)"
  shows "AddUserUseCase_registerUser (UserRepositoryPostgres idGenerator) ph p db =
           (Inl username_not_available, db)"
  using assms
  by (simp add: AddUserUseCase_registerUser_def UserRepositoryPostgres_def username_taken_iff)

lemma registerUser_fresh:
  assumes "RegisterUser p = Inr ru" and "username ru \<notin> user_username ` set (users db)"
    and "hash ph (password ru) = Inr hashed"
  shows "AddUserUseCase_registerUser (UserRepositoryPostgres idGenerator) ph p db =
           (Inr (ru\<lparr>password := hashed\<rparr>), db)"
  using assms
  by (simp add: AddUserUseCase_registerUser_def UserRepositoryPostgres_def username_taken_iff)

text \<open>
  C3. For every registration payload that RegisterUser accepts and every injected
  repository and password hash: when \<open>verifyAvailableUsername\<close> rejects the username,
  \<open>execute\<close> fails with that error in the store the check left, and \<open>addUser\<close> is not
  called; when it accepts and the hash returns, \<open>execute\<close> is the call of \<open>addUser\<close> on the
  entity with the hashed password. With the repository of users: when a user row already
  has the requested username, \<open>execute\<close> fails with the "username not available" error and
  the store is as before (no user row is added); when the username is fresh, the user row
  with the hashed password is added and \<open>{id, username, fullname}\<close> is returned.
\<close>

theorem C3_register_user:
  assumes "RegisterUser p = Inr ru"
  shows "(verifyAvailableUsername repo (username ru) db = (Inl e, db1) \<longrightarrow>
            AddUserUseCase_execute repo ph p db = (Inl e, db1)) \<and>
         (verifyAvailableUsername repo (username ru) db = (Inr v, db1) \<and>
          hash ph (password ru) = Inr hashed \<longrightarrow>
            AddUserUseCase_execute repo ph p db = addUser repo (ru\<lparr>password := hashed\<rparr>) db1) \<and>
         (username ru \<in> user_username ` set (users sdb) \<longrightarrow>
            AddUserUseCase_execute (UserRepositoryPostgres idGenerator) ph p sdb =
              (Inl username_not_available, sdb)) \<and>
         (username ru \<notin> user_username ` set (users sdb) \<and> hash ph (password ru) = Inr hashed \<longrightarrow>
            AddUserUseCase_execute (UserRepositoryPostgres idGenerator) ph p sdb =
              (Inr \<lparr>registered_id = idGenerator, registered_username = username ru,
                    registered_fullname = fullname ru\<rparr>,
               sdb\<lparr>users := users sdb @
                    [\<lparr>user_id = idGenerator, user_username = username ru,
                      user_password = hashed, user_fullname = fullname ru\<rparr>]\<rparr>))"
proof (intro conjI impI)
  assume "verifyAvailableUsername repo (username ru) db = (Inl e, db1)"
  with assms show "AddUserUseCase_execute repo ph p db = (Inl e, db1)"
    by (simp add: AddUserUseCase_execute_def AddUserUseCase_registerUser_def)
next
  assume "verifyAvailableUsername repo (username ru) db = (Inr v, db1) \<and>
          hash ph (password ru) = Inr hashed"
  with assms show "AddUserUseCase_execute repo ph p db = addUser repo (ru\<lparr>password := hashed\<rparr>) db1"
    by (simp add: AddUserUseCase_execute_def AddUserUseCase_registerUser_def)
next
  assume "username ru \<in> user_username ` set (users sdb)"
  with assms show "AddUserUseCase_execute (UserRepositoryPostgres idGenerator) ph p sdb =
              (Inl username_not_available, sdb)"
    by (simp add: AddUserUseCase_execute_def registerUser_taken)
next
  assume "username ru \<notin> user_username ` set (users sdb) \<and> hash ph (password ru) = Inr hashed"
  with assms have "AddUserUseCase_registerUser (UserRepositoryPostgres idGenerator) ph p sdb =
           (Inr (ru\<lparr>password := hashed\<rparr>), sdb)"
    by (simp add: registerUser_fresh)
  then show "AddUserUseCase_execute (UserRepositoryPostgres idGenerator) ph p sdb =
              (Inr \<lparr>registered_id = idGenerator, registered_username = username ru,
                    registered_fullname = fullname ru\<rparr>,
               sdb\<lparr>users := users sdb @
                    [\<lparr>user_id = idGenerator, user_username = username ru,
                      user_password = hashed, user_fullname = fullname ru\<rparr>]\<rparr>)"
    by (simp add: AddUserUseCase_execute_def UserRepositoryPostgres_def)
qed

lemma RegisterUser_dicoding:
  "RegisterUser [''username'' \<mapsto> JStr ''dicoding'', ''password'' \<mapsto> JStr ''secret'',
                 ''fullname'' \<mapsto> JStr ''Dicoding Indonesia'']
     = Inr \<lparr>username = ''dicoding'', password = ''secret'', fullname = ''Dicoding Indonesia''\<rparr>"
  by (simp add: RegisterUser_Inr_iff get_prop_def)

theorem C3_register_user_witness:
  "AddUserUseCase_execute (UserRepositoryPostgres ''user-123'')
      (BcryptPasswordHash (\<lambda>pw r. Inr (''encrypted_'' @ pw)) 10)
      [''username'' \<mapsto> JStr ''dicoding'', ''password'' \<mapsto> JStr ''secret'',
       ''fullname'' \<mapsto> JStr ''Dicoding Indonesia'']
      \<lparr>users = [\<lparr>user_id = ''user-001'', user_username = ''dicoding'',
                  user_password = ''encrypted_abc'', user_fullname = ''Dicoding''\<rparr>],
       comments = [], replies = [], comment_likes = []\<rparr>
    = (Inl username_not_available,
       \<lparr>users = [\<lparr>user_id = ''user-001'', user_username = ''dicoding'',
                  user_password = ''encrypted_abc'', user_fullname = ''Dicoding''\<rparr>],
        comments = [], replies = [], comment_likes = []\<rparr>) \<and>
   AddUserUseCase_execute (UserRepositoryPostgres ''user-123'')
      (BcryptPasswordHash (\<lambda>pw r. Inr (''encrypted_'' @ pw)) 10)
      [''username'' \<mapsto> JStr ''dicoding'', ''password'' \<mapsto> JStr ''secret'',
       ''fullname'' \<mapsto> JStr ''Dicoding Indonesia'']
      \<lparr>users = [], comments = [], replies = [], comment_likes = []\<rparr>
    = (Inr \<lparr>registered_id = ''user-123'', registered_username = ''dicoding'',
             registered_fullname = ''Dicoding Indonesia''\<rparr>,
       \<lparr>users = [\<lparr>user_id = ''user-123'', user_username = ''dicoding'',
                  user_password = ''encrypted_secret'', user_fullname = ''Dicoding Indonesia''\<rparr>],
        comments = [], replies = [], comment_likes = []\<rparr>)"
proof -
  let ?p = "[''username'' \<mapsto> JStr ''dicoding'', ''password'' \<mapsto> JStr ''secret'',
       ''fullname'' \<mapsto> JStr ''Dicoding Indonesia'']"
  let ?ru = "\<lparr>username = ''dicoding'', password = ''secret'', fullname = ''Dicoding Indonesia''\<rparr>"
  let ?ph = "BcryptPasswordHash (\<lambda>pw r. Inr (''encrypted_'' @ pw)) 10"
  let ?taken = "\<lparr>users = [\<lparr>user_id = ''user-001'', user_username = ''dicoding'',
                  user_password = ''encrypted_abc'', user_fullname = ''Dicoding''\<rparr>],
       comments = [], replies = [], comment_likes = []\<rparr>"
  let ?empty = "\<lparr>users = [], comments = [], replies = [], comment_likes = []\<rparr>"
  have ru: "RegisterUser ?p = Inr ?ru" by (rule RegisterUser_dicoding)
  have taken: "username ?ru \<in> user_username ` set (users ?taken)" by simp
  have fresh: "username ?ru \<notin> user_username ` set (users ?empty) \<and>
      hash ?ph (password ?ru) = Inr ''encrypted_secret''"
    by (simp add: BcryptPasswordHash_def)
  note t = C3_register_user [OF ru, where ph = ?ph and idGenerator = "''user-123''"
      and hashed = "''encrypted_secret''"]
  have rejected: "verifyAvailableUsername (UserRepositoryPostgres ''user-123'') (username ?ru) ?taken
      = (Inl username_not_available, ?taken)"
    by (simp add: UserRepositoryPostgres_def)
  have accepted: "verifyAvailableUsername (UserRepositoryPostgres ''user-123'') (username ?ru) ?empty
      = (Inr (), ?empty) \<and> hash ?ph (password ?ru) = Inr ''encrypted_secret''"
    by (simp add: UserRepositoryPostgres_def BcryptPasswordHash_def)
  note a0 = mp [OF t [where repo = "UserRepositoryPostgres ''user-123''" and db = ?taken,
        THEN conjunct1] rejected]
  note b0 = mp [OF t [where repo = "UserRepositoryPostgres ''user-123''" and db = ?empty,
        THEN conjunct2, THEN conjunct1] accepted]
  note a = mp [OF t [where sdb = ?taken, THEN conjunct2, THEN conjunct2, THEN conjunct1] taken]
  note b = mp [OF t [where sdb = ?empty, THEN conjunct2, THEN conjunct2, THEN conjunct2] fresh]
  from a0 b0 have "AddUserUseCase_execute (UserRepositoryPostgres ''user-123'') ?ph ?p ?taken
      = (Inl username_not_available, ?taken) \<and>
    AddUserUseCase_execute (UserRepositoryPostgres ''user-123'') ?ph ?p ?empty
      = addUser (UserRepositoryPostgres ''user-123'') (?ru\<lparr>password := ''encrypted_secret''\<rparr>) ?empty"
    by (rule conjI)
  from a b show ?thesis by simp
qed

text \<open>
  C5 (amended). On successful construction an entity exposes exactly its declared fields,
  with the payload's values. An entity is not immutable afterwards:
  \<open>AddUserUseCase.execute\<close> reassigns \<open>registerUser.password\<close> to its hash before it hands the
  entity to \<open>addUser\<close>; the username and the fullname of that entity are those it was
  constructed with.
\<close>

theorem C5_entity_fields:
  "(\<forall>obj. construct entity declared p = Inr obj \<longrightarrow>
      dom obj = fst ` set declared \<and> (\<forall>k. k \<in> fst ` set declared \<longrightarrow> obj k = p k)) \<and>
   (\<forall>ru ru' db'. RegisterUser p = Inr ru \<and>
        AddUserUseCase_registerUser repo ph p db = (Inr ru', db') \<longrightarrow>
      username ru' = username ru \<and> fullname ru' = fullname ru \<and>
      hash ph (password ru) = Inr (password ru'))"
proof (intro conjI impI allI)
  fix obj assume "construct entity declared p = Inr obj"
  then show "dom obj = fst ` set declared"
    by (rule construct_Inr(1))
next
  fix obj k assume "construct entity declared p = Inr obj" and "k \<in> fst ` set declared"
  then show "obj k = p k"
    using construct_Inr(2) by blast
next
  fix ru ru' db'
  assume a: "RegisterUser p = Inr ru \<and> AddUserUseCase_registerUser repo ph p db = (Inr ru', db')"
  then have "\<exists>hashed. hash ph (password ru) = Inr hashed \<and> ru' = ru\<lparr>password := hashed\<rparr>"
    by (auto simp: AddUserUseCase_registerUser_def split: prod.splits sum.splits)
  then show "username ru' = username ru" and "fullname ru' = fullname ru"
    and "hash ph (password ru) = Inr (password ru')"
    by auto
qed

text \<open>
  C5 as stated, with entities immutable, fails on \<open>execute\<close>: between the construction of
  the entity and the call of \<open>addUser\<close> the exposed field \<open>password\<close> is reassigned.
\<close>

theorem C5_counterexample:
  "RegisterUser [''username'' \<mapsto> JStr ''dicoding'', ''password'' \<mapsto> JStr ''secret'',
                 ''fullname'' \<mapsto> JStr ''Dicoding Indonesia'']
     = Inr \<lparr>username = ''dicoding'', password = ''secret'', fullname = ''Dicoding Indonesia''\<rparr> \<and>
   AddUserUseCase_registerUser (UserRepositoryPostgres ''user-123'')
      (BcryptPasswordHash (\<lambda>pw r. Inr (''encrypted_'' @ pw)) 10)
      [''username'' \<mapsto> JStr ''dicoding'', ''password'' \<mapsto> JStr ''secret'',
       ''fullname'' \<mapsto> JStr ''Dicoding Indonesia'']
      \<lparr>users = [], comments = [], replies = [], comment_likes = []\<rparr>
     = (Inr \<lparr>username = ''dicoding'', password = ''encrypted_secret'',
              fullname = ''Dicoding Indonesia''\<rparr>,
        \<lparr>users = [], comments = [], replies = [], comment_likes = []\<rparr>) \<and>
   password \<lparr>username = ''dicoding'', password = ''encrypted_secret'',
              fullname = ''Dicoding Indonesia''\<rparr>
     \<noteq> password \<lparr>username = ''dicoding'', password = ''secret'', fullname = ''Dicoding Indonesia''\<rparr>"
  by (simp add: RegisterUser_dicoding AddUserUseCase_registerUser_def UserRepositoryPostgres_def
      BcryptPasswordHash_def)

theorem C5_entity_fields_witness:
  "dom (projr (construct ''REGISTER_USER'' RegisterUser_fields
       [''username'' \<mapsto> JStr ''dicoding'', ''password'' \<mapsto> JStr ''secret'',
        ''fullname'' \<mapsto> JStr ''Dicoding Indonesia'', ''admin'' \<mapsto> JBool True]))
     = {''username'', ''password'', ''fullname''} \<and>
   username (projr (fst (AddUserUseCase_registerUser (UserRepositoryPostgres ''user-123'')
      (BcryptPasswordHash (\<lambda>pw r. Inr (''encrypted_'' @ pw)) 10)
      [''username'' \<mapsto> JStr ''dicoding'', ''password'' \<mapsto> JStr ''secret'',
       ''fullname'' \<mapsto> JStr ''Dicoding Indonesia'']
      \<lparr>users = [], comments = [], replies = [], comment_likes = []\<rparr>))) = ''dicoding'' \<and>
   hash (BcryptPasswordHash (\<lambda>pw r. Inr (''encrypted_'' @ pw)) 10) ''secret''
     = Inr ''encrypted_secret''"
proof -
  let ?good = "[''username'' \<mapsto> JStr ''dicoding'', ''password'' \<mapsto> JStr ''secret'',
                 ''fullname'' \<mapsto> JStr ''Dicoding Indonesia'', ''admin'' \<mapsto> JBool True]"
  let ?p = "[''username'' \<mapsto> JStr ''dicoding'', ''password'' \<mapsto> JStr ''secret'',
       ''fullname'' \<mapsto> JStr ''Dicoding Indonesia'']"
  let ?ru = "\<lparr>username = ''dicoding'', password = ''secret'', fullname = ''Dicoding Indonesia''\<rparr>"
  let ?ru' = "\<lparr>username = ''dicoding'', password = ''encrypted_secret'',
     fullname = ''Dicoding Indonesia''\<rparr>"
  let ?ph = "BcryptPasswordHash (\<lambda>pw r. Inr (''encrypted_'' @ pw)) 10"
  let ?repo = "UserRepositoryPostgres ''user-123''"
  let ?empty = "\<lparr>users = [], comments = [], replies = [], comment_likes = []\<rparr>"
  have g: "construct ''REGISTER_USER'' RegisterUser_fields ?good
      = Inr (?good |` {''username'', ''password'', ''fullname''})"
    by (simp add: construct_def verifyPayload_def RegisterUser_fields_def get_prop_def)
  have "dom (?good |` {''username'', ''password'', ''fullname''}) = fst ` set RegisterUser_fields"
    using C5_entity_fields [of "''REGISTER_USER''" RegisterUser_fields ?good,
        THEN conjunct1, THEN spec, THEN mp, OF g]
    by (rule conjunct1)
  then have d: "dom (projr (construct ''REGISTER_USER'' RegisterUser_fields ?good))
     = {''username'', ''password'', ''fullname''}"
    by (simp only: g sum.sel) (simp add: RegisterUser_fields_def)
  have run: "AddUserUseCase_registerUser ?repo ?ph ?p ?empty = (Inr ?ru', ?empty)"
    by (simp add: RegisterUser_dicoding AddUserUseCase_registerUser_def UserRepositoryPostgres_def
      BcryptPasswordHash_def)
  have both: "RegisterUser ?p = Inr ?ru \<and>
      AddUserUseCase_registerUser ?repo ?ph ?p ?empty = (Inr ?ru', ?empty)"
    using RegisterUser_dicoding run by (rule conjI)
  note t = C5_entity_fields [of "''REGISTER_USER''" RegisterUser_fields ?p ?repo ?ph ?empty,
      THEN conjunct2, THEN spec, THEN spec, THEN spec, THEN mp, OF both]
  from t have h: "hash ?ph ''secret'' = Inr ''encrypted_secret''" by simp
  have u: "username (projr (fst (AddUserUseCase_registerUser ?repo ?ph ?p ?empty))) = ''dicoding''"
    using t by (simp only: run fst_conv sum.sel) simp
  from d u h show ?thesis by blast
qed

section \<open>Error propagation\<close>

text \<open>
  C6. \<open>AddUserUseCase.execute\<close> catches nothing: whatever the entity constructor, the
  availability check, the password hash or \<open>addUser\<close> throws is the error of \<open>execute\<close>,
  unchanged, with the store as the failing call left it. Both comment handlers return the
  error of their use case unchanged. The error response is made in one place,
  \<open>onPreResponse\<close>: an error that translates to a client error is answered with that error's
  status code and message under status \<open>'fail'\<close>; every other error is answered with the
  status code 500, status \<open>'error'\<close> and the fixed generic message, a response in which
  nothing of the error appears.
\<close>

theorem C6_errors_propagate:
  "(RegisterUser p = Inl e \<longrightarrow> AddUserUseCase_execute repo ph p sdb = (Inl e, sdb)) \<and>
   (RegisterUser p = Inr ru \<and> verifyAvailableUsername repo (username ru) sdb = (Inl e, sdb1) \<longrightarrow>
      AddUserUseCase_execute repo ph p sdb = (Inl e, sdb1)) \<and>
   (RegisterUser p = Inr ru \<and> verifyAvailableUsername repo (username ru) sdb = (Inr u, sdb1) \<and>
    hash ph (password ru) = Inl e \<longrightarrow>
      AddUserUseCase_execute repo ph p sdb = (Inl e, sdb1)) \<and>
   (RegisterUser p = Inr ru \<and> verifyAvailableUsername repo (username ru) sdb = (Inr u, sdb1) \<and>
    hash ph (password ru) = Inr hashed \<and>
    addUser repo (ru\<lparr>password := hashed\<rparr>) sdb1 = (Inl e, sdb2) \<longrightarrow>
      AddUserUseCase_execute repo ph p sdb = (Inl e, sdb2)) \<and>
   (addCommentUseCase (postCommentPayload r) db = (Inl e, db1) \<longrightarrow>
      postCommentHandler addCommentUseCase r db = (Inl e, db1)) \<and>
   (deleteCommentUseCase (deleteCommentPayload r) db = (Inl e, db1) \<longrightarrow>
      (deleteCommentHandler deleteCommentUseCase r db
         :: (error + unit body handler_return) \<times> 'db) = (Inl e, db1)) \<and>
   (clientStatus (translate table e) = Some (c, m) \<longrightarrow>
      (onPreResponse table generic (Inl e) :: 'c body response) =
        \<lparr>statusCode = c, source = \<lparr>status = ''fail'', message = Some m, data = None\<rparr>\<rparr>) \<and>
   (clientStatus (translate table e) = None \<longrightarrow>
      (onPreResponse table generic (Inl e) :: 'c body response) =
        \<lparr>statusCode = 500,
         source = \<lparr>status = ''error'', message = Some generic, data = None\<rparr>\<rparr>)"
  by (simp add: AddUserUseCase_execute_def AddUserUseCase_registerUser_def
      postCommentHandler_def deleteCommentHandler_def onPreResponse_def h_response_def code_def)


theorem C6_errors_propagate_witness:
  "AddUserUseCase_execute (UserRepositoryPostgres ''user-123'')
      (BcryptPasswordHash (\<lambda>pw r. Inr (''encrypted_'' @ pw)) 10)
      [''username'' \<mapsto> JStr ''dicoding'', ''password'' \<mapsto> JStr ''secret'']
      \<lparr>users = [], comments = [], replies = [], comment_likes = []\<rparr>
    = (Inl (Error ''REGISTER_USER.NOT_CONTAIN_NEEDED_PROPERTY''),
       \<lparr>users = [], comments = [], replies = [], comment_likes = []\<rparr>) \<and>
   AddUserUseCase_execute (UserRepositoryPostgres ''user-123'')
      (BcryptPasswordHash (\<lambda>pw r. Inr (''encrypted_'' @ pw)) 10)
      [''username'' \<mapsto> JStr ''dicoding'', ''password'' \<mapsto> JStr ''secret'',
       ''fullname'' \<mapsto> JStr ''Dicoding Indonesia'']
      \<lparr>users = [\<lparr>user_id = ''user-001'', user_username = ''dicoding'',
                  user_password = ''encrypted_abc'', user_fullname = ''Dicoding''\<rparr>],
       comments = [], replies = [], comment_likes = []\<rparr>
    = (Inl username_not_available,
       \<lparr>users = [\<lparr>user_id = ''user-001'', user_username = ''dicoding'',
                  user_password = ''encrypted_abc'', user_fullname = ''Dicoding''\<rparr>],
        comments = [], replies = [], comment_likes = []\<rparr>) \<and>
   AddUserUseCase_execute (UserRepositoryPostgres ''user-123'')
      (BcryptPasswordHash (\<lambda>pw r. Inl (Error ''bcrypt failure'')) 10)
      [''username'' \<mapsto> JStr ''dicoding'', ''password'' \<mapsto> JStr ''secret'',
       ''fullname'' \<mapsto> JStr ''Dicoding Indonesia'']
      \<lparr>users = [], comments = [], replies = [], comment_likes = []\<rparr>
    = (Inl (Error ''bcrypt failure''),
       \<lparr>users = [], comments = [], replies = [], comment_likes = []\<rparr>) \<and>
   AddUserUseCase_execute
      \<lparr>verifyAvailableUsername = (\<lambda>u db. (Inr (), db)),
       addUser = (\<lambda>ru db. (Inl (Error ''connection lost'') :: error + unit, Suc db))\<rparr>
      (BcryptPasswordHash (\<lambda>pw r. Inr (''encrypted_'' @ pw)) 10)
      [''username'' \<mapsto> JStr ''dicoding'', ''password'' \<mapsto> JStr ''secret'',
       ''fullname'' \<mapsto> JStr ''Dicoding Indonesia'']
      (0::nat)
    = (Inl (Error ''connection lost''), Suc 0) \<and>
   postCommentHandler (\<lambda>p db. (Inl (NotFoundError ''thread not found'') :: error + unit, db))
      \<lparr>payload = [''content'' \<mapsto> JStr ''sebuah comment''],
       params = [''threadId'' \<mapsto> JStr ''thread-123''],
       auth_credentials = [''id'' \<mapsto> JStr ''user-123'']\<rparr> (0::nat)
    = (Inl (NotFoundError ''thread not found''), 0) \<and>
   (deleteCommentHandler (\<lambda>p db. (Inl (AuthorizationError ''forbidden'') :: error + unit, db))
      \<lparr>payload = Map.empty,
       params = [''threadId'' \<mapsto> JStr ''thread-123'', ''commentId'' \<mapsto> JStr ''comment-123''],
       auth_credentials = [''id'' \<mapsto> JStr ''user-123'']\<rparr> (0::nat)
      :: (error + unit body handler_return) \<times> nat)
    = (Inl (AuthorizationError ''forbidden''), 0) \<and>
   (onPreResponse (translation_table Map.empty) ''terjadi kegagalan pada server kami''
      (Inl (Error ''REGISTER_USER.NOT_CONTAIN_NEEDED_PROPERTY'')) :: unit body response)
    = \<lparr>statusCode = 400,
       source = \<lparr>status = ''fail'',
         message = Some ''tidak dapat membuat user baru karena properti yang dibutuhkan tidak ada'',
         data = None\<rparr>\<rparr> \<and>
   (onPreResponse (translation_table Map.empty) ''terjadi kegagalan pada server kami''
      (Inl (Error ''connection lost'')) :: unit body response)
    = \<lparr>statusCode = 500,
       source = \<lparr>status = ''error'', message = Some ''terjadi kegagalan pada server kami'',
         data = None\<rparr>\<rparr>"
proof -
  let ?repo = "UserRepositoryPostgres ''user-123''"
  let ?ph = "BcryptPasswordHash (\<lambda>pw r. Inr (''encrypted_'' @ pw)) 10"
  let ?phfail = "BcryptPasswordHash (\<lambda>pw r. Inl (Error ''bcrypt failure'')) 10"
  let ?down = "\<lparr>verifyAvailableUsername = (\<lambda>u db. (Inr (), db)),
       addUser = (\<lambda>ru db. (Inl (Error ''connection lost'') :: error + unit, Suc db))\<rparr>"
  let ?missing = "[''username'' \<mapsto> JStr ''dicoding'', ''password'' \<mapsto> JStr ''secret'']"
  let ?p = "[''username'' \<mapsto> JStr ''dicoding'', ''password'' \<mapsto> JStr ''secret'',
       ''fullname'' \<mapsto> JStr ''Dicoding Indonesia'']"
  let ?ru = "\<lparr>username = ''dicoding'', password = ''secret'', fullname = ''Dicoding Indonesia''\<rparr>"
  let ?empty = "\<lparr>users = [], comments = [], replies = [], comment_likes = []\<rparr>"
  let ?taken = "\<lparr>users = [\<lparr>user_id = ''user-001'', user_username = ''dicoding'',
                  user_password = ''encrypted_abc'', user_fullname = ''Dicoding''\<rparr>],
       comments = [], replies = [], comment_likes = []\<rparr>"
  let ?post = "\<lparr>payload = [''content'' \<mapsto> JStr ''sebuah comment''],
       params = [''threadId'' \<mapsto> JStr ''thread-123''],
       auth_credentials = [''id'' \<mapsto> JStr ''user-123'']\<rparr>"
  let ?del = "\<lparr>payload = Map.empty,
       params = [''threadId'' \<mapsto> JStr ''thread-123'', ''commentId'' \<mapsto> JStr ''comment-123''],
       auth_credentials = [''id'' \<mapsto> JStr ''user-123'']\<rparr>"
  let ?generic = "''terjadi kegagalan pada server kami''"
  have h1: "RegisterUser ?missing = Inl (Error ''REGISTER_USER.NOT_CONTAIN_NEEDED_PROPERTY'')"
    by (rule RegisterUser_missing) (simp add: get_prop_def)
  have w1: "AddUserUseCase_execute ?repo ?ph ?missing ?empty
      = (Inl (Error ''REGISTER_USER.NOT_CONTAIN_NEEDED_PROPERTY''), ?empty)"
    by (rule mp [OF C6_errors_propagate
          [where p = ?missing and repo = ?repo and ph = ?ph and sdb = ?empty, THEN conjunct1] h1])
  have h2: "RegisterUser ?p = Inr ?ru \<and>
      verifyAvailableUsername ?repo (username ?ru) ?taken = (Inl username_not_available, ?taken)"
    by (simp add: RegisterUser_dicoding UserRepositoryPostgres_def)
  have w2: "AddUserUseCase_execute ?repo ?ph ?p ?taken = (Inl username_not_available, ?taken)"
    by (rule mp [OF C6_errors_propagate
          [where p = ?p and repo = ?repo and ph = ?ph and sdb = ?taken,
           THEN conjunct2, THEN conjunct1] h2])
  have h3: "RegisterUser ?p = Inr ?ru \<and>
      verifyAvailableUsername ?repo (username ?ru) ?empty = (Inr (), ?empty) \<and>
      hash ?phfail (password ?ru) = Inl (Error ''bcrypt failure'')"
    by (simp add: RegisterUser_dicoding UserRepositoryPostgres_def BcryptPasswordHash_def)
  have w3: "AddUserUseCase_execute ?repo ?phfail ?p ?empty = (Inl (Error ''bcrypt failure''), ?empty)"
    by (rule mp [OF C6_errors_propagate
          [where p = ?p and repo = ?repo and ph = ?phfail and sdb = ?empty,
           THEN conjunct2, THEN conjunct2, THEN conjunct1] h3])
  have h4: "RegisterUser ?p = Inr ?ru \<and>
      verifyAvailableUsername ?down (username ?ru) (0::nat) = (Inr (), 0) \<and>
      hash ?ph (password ?ru) = Inr ''encrypted_secret'' \<and>
      addUser ?down (?ru\<lparr>password := ''encrypted_secret''\<rparr>) 0
        = (Inl (Error ''connection lost''), Suc 0)"
    by (simp add: RegisterUser_dicoding BcryptPasswordHash_def)
  have w4: "AddUserUseCase_execute ?down ?ph ?p (0::nat) = (Inl (Error ''connection lost''), Suc 0)"
    by (rule mp [OF C6_errors_propagate
          [where p = ?p and repo = ?down and ph = ?ph and sdb = "0::nat",
           THEN conjunct2, THEN conjunct2, THEN conjunct2, THEN conjunct1] h4])
  have w5: "postCommentHandler (\<lambda>p db. (Inl (NotFoundError ''thread not found'') :: error + unit, db))
      ?post (0::nat) = (Inl (NotFoundError ''thread not found''), 0)"
    by (rule mp [OF C6_errors_propagate
          [where r = ?post and db = "0::nat",
           THEN conjunct2, THEN conjunct2, THEN conjunct2, THEN conjunct2, THEN conjunct1]]) simp
  have w6: "(deleteCommentHandler (\<lambda>p db. (Inl (AuthorizationError ''forbidden'') :: error + unit, db))
      ?del (0::nat) :: (error + unit body handler_return) \<times> nat)
      = (Inl (AuthorizationError ''forbidden''), 0)"
    by (rule mp [OF C6_errors_propagate
          [where r = ?del and db = "0::nat",
           THEN conjunct2, THEN conjunct2, THEN conjunct2, THEN conjunct2, THEN conjunct2,
           THEN conjunct1]]) simp
  have h7: "clientStatus (translate (translation_table Map.empty)
        (Error ''REGISTER_USER.NOT_CONTAIN_NEEDED_PROPERTY''))
      = Some (400, ''tidak dapat membuat user baru karena properti yang dibutuhkan tidak ada'')"
    by (simp add: translate_def translation_table_def)
  have w7: "(onPreResponse (translation_table Map.empty) ?generic
      (Inl (Error ''REGISTER_USER.NOT_CONTAIN_NEEDED_PROPERTY'')) :: unit body response)
    = \<lparr>statusCode = 400,
       source = \<lparr>status = ''fail'',
         message = Some ''tidak dapat membuat user baru karena properti yang dibutuhkan tidak ada'',
         data = None\<rparr>\<rparr>"
    by (rule mp [OF C6_errors_propagate
          [THEN conjunct2, THEN conjunct2, THEN conjunct2, THEN conjunct2, THEN conjunct2,
           THEN conjunct2, THEN conjunct1] h7])
  have h8: "clientStatus (translate (translation_table Map.empty) (Error ''connection lost'')) = None"
    by (simp add: translate_def translation_table_def)
  have w8: "(onPreResponse (translation_table Map.empty) ?generic
      (Inl (Error ''connection lost'')) :: unit body response)
    = \<lparr>statusCode = 500,
       source = \<lparr>status = ''error'', message = Some ?generic, data = None\<rparr>\<rparr>"
    by (rule mp [OF C6_errors_propagate
          [THEN conjunct2, THEN conjunct2, THEN conjunct2, THEN conjunct2, THEN conjunct2,
           THEN conjunct2, THEN conjunct2] h8])
  from w1 w2 w3 w4 w5 w6 w7 w8 show ?thesis by blast
qed

section \<open>Likes\<close>

lemma toggleLike_other_tables:
  "users (toggleLike c u db) = users db"
  "comments (toggleLike c u db) = comments db"
  "replies (toggleLike c u db) = replies db"
  by (simp_all add: toggleLike_def)

lemma toggleLike_set:
  "set (comment_likes (toggleLike c u db)) =
     (if (c, u) \<in> set (comment_likes db) then set (comment_likes db) - {(c, u)}
      else insert (c, u) (set (comment_likes db)))"
  by (auto simp: toggleLike_def)

lemma toggleLike_distinct:
  "distinct (comment_likes db) \<Longrightarrow> distinct (comment_likes (toggleLike c u db))"
  by (simp add: toggleLike_def distinct_removeAll)

lemma toggleLike_twice_set:
  "set (comment_likes (toggleLike c u (toggleLike c u db))) = set (comment_likes db)"
  by (auto simp: toggleLike_set split: if_splits)

lemma likeCount_card:
  assumes "distinct (comment_likes db)"
  shows "likeCount c db = card {p \<in> set (comment_likes db). fst p = c}"
proof -
  have "distinct (filter (\<lambda>(c', u). c' = c) (comment_likes db))"
    using assms by (rule distinct_filter)
  then have "card (set (filter (\<lambda>(c', u). c' = c) (comment_likes db)))
      = length (filter (\<lambda>(c', u). c' = c) (comment_likes db))"
    by (rule distinct_card)
  then have "likeCount c db = card (set (filter (\<lambda>(c', u). c' = c) (comment_likes db)))"
    by (simp only: likeCount_def)
  also have "set (filter (\<lambda>(c', u). c' = c) (comment_likes db))
      = {p \<in> set (comment_likes db). fst p = c}"
    by auto
  finally show ?thesis .
qed

lemma toggleLike_twice_count:
  assumes "distinct (comment_likes db)"
  shows "likeCount c' (toggleLike c u (toggleLike c u db)) = likeCount c' db"
proof -
  have "distinct (comment_likes (toggleLike c u (toggleLike c u db)))"
    using assms by (intro toggleLike_distinct)
  then show ?thesis
    using assms by (simp add: likeCount_card toggleLike_twice_set)
qed

lemma toggleLike_fresh_count:
  assumes "(c, u) \<notin> set (comment_likes db)"
  shows "likeCount c (toggleLike c u db) = likeCount c db + 1"
  using assms by (simp add: likeCount_def toggleLike_def)

lemma comment_exists_iff:
  "list_ex (\<lambda>row. comment_id row = c) rows \<longleftrightarrow> c \<in> comment_id ` set rows"
  by (force simp: list_ex_iff)

lemma LikeUnlike_distinct:
  assumes "distinct (comment_likes db)"
  shows "distinct (comment_likes (snd (LikeUnlikeCommentUseCase_execute c u db)))"
  using assms by (simp add: LikeUnlikeCommentUseCase_execute_def toggleLike_distinct)

text \<open>
  C1. In a store whose like rows are unique per (comment id, user id) pair, for every user
  \<open>u\<close> and every comment \<open>c\<close> that exists: toggling the like of \<open>u\<close> on \<open>c\<close> twice in
  succession succeeds both times and returns the like count of every comment and the set of
  like pairs to what they were, leaving the other tables as they were; toggling once when
  \<open>u\<close> has not liked \<open>c\<close> increments the like count of \<open>c\<close> by exactly one; and the rows stay
  unique per pair after each toggle, of these and of any other user on any other comment.
\<close>

theorem C1_like_toggle:
  assumes "distinct (comment_likes db)" and "c \<in> comment_id ` set (comments db)"
  shows "\<exists>db1 db2.
           LikeUnlikeCommentUseCase_execute c u db = (Inr (), db1) \<and>
           LikeUnlikeCommentUseCase_execute c u db1 = (Inr (), db2) \<and>
           (\<forall>c'. likeCount c' db2 = likeCount c' db) \<and>
           set (comment_likes db2) = set (comment_likes db) \<and>
           users db2 = users db \<and> comments db2 = comments db \<and> replies db2 = replies db \<and>
           ((c, u) \<notin> set (comment_likes db) \<longrightarrow> likeCount c db1 = likeCount c db + 1) \<and>
           distinct (comment_likes db1) \<and> distinct (comment_likes db2) \<and>
           (\<forall>c' u'. distinct (comment_likes (snd (LikeUnlikeCommentUseCase_execute c' u' db))))"
proof (intro exI conjI allI impI)
  show "LikeUnlikeCommentUseCase_execute c u db = (Inr (), toggleLike c u db)"
    using assms(2) by (simp add: LikeUnlikeCommentUseCase_execute_def comment_exists_iff)
  show "LikeUnlikeCommentUseCase_execute c u (toggleLike c u db)
      = (Inr (), toggleLike c u (toggleLike c u db))"
    using assms(2)
    by (simp add: LikeUnlikeCommentUseCase_execute_def comment_exists_iff toggleLike_other_tables)
  show "likeCount c' (toggleLike c u (toggleLike c u db)) = likeCount c' db" for c'
    using assms(1) by (rule toggleLike_twice_count)
  show "set (comment_likes (toggleLike c u (toggleLike c u db))) = set (comment_likes db)"
    by (rule toggleLike_twice_set)
  show "users (toggleLike c u (toggleLike c u db)) = users db"
    and "comments (toggleLike c u (toggleLike c u db)) = comments db"
    and "replies (toggleLike c u (toggleLike c u db)) = replies db"
    by (simp_all add: toggleLike_other_tables)
  show "likeCount c (toggleLike c u db) = likeCount c db + 1"
    if "(c, u) \<notin> set (comment_likes db)"
    using that by (rule toggleLike_fresh_count)
  show "distinct (comment_likes (toggleLike c u db))"
    using assms(1) by (rule toggleLike_distinct)
  then show "distinct (comment_likes (toggleLike c u (toggleLike c u db)))"
    by (rule toggleLike_distinct)
  show "distinct (comment_likes (snd (LikeUnlikeCommentUseCase_execute c' u' db)))" for c' u'
    using assms(1) by (rule LikeUnlike_distinct)
qed


theorem C1_like_toggle_witness:
  "likeCount (JStr ''comment-123'')
     (snd (LikeUnlikeCommentUseCase_execute (JStr ''comment-123'') (JStr ''user-456'')
        (snd (LikeUnlikeCommentUseCase_execute (JStr ''comment-123'') (JStr ''user-456'')
           \<lparr>users = [],
            comments = [\<lparr>comment_id = JStr ''comment-123'', comment_thread = JStr ''thread-123'',
                         comment_owner = JStr ''user-123'', comment_content = ''sebuah comment'',
                         comment_is_delete = False\<rparr>],
            replies = [], comment_likes = [(JStr ''comment-123'', JStr ''user-123'')]\<rparr>)))) = 1 \<and>
   likeCount (JStr ''comment-123'')
     (snd (LikeUnlikeCommentUseCase_execute (JStr ''comment-123'') (JStr ''user-456'')
           \<lparr>users = [],
            comments = [\<lparr>comment_id = JStr ''comment-123'', comment_thread = JStr ''thread-123'',
                         comment_owner = JStr ''user-123'', comment_content = ''sebuah comment'',
                         comment_is_delete = False\<rparr>],
            replies = [], comment_likes = [(JStr ''comment-123'', JStr ''user-123'')]\<rparr>)) = 2"
proof -
  let ?c = "JStr ''comment-123''"
  let ?u = "JStr ''user-456''"
  let ?db = "\<lparr>users = [],
            comments = [\<lparr>comment_id = JStr ''comment-123'', comment_thread = JStr ''thread-123'',
                         comment_owner = JStr ''user-123'', comment_content = ''sebuah comment'',
                         comment_is_delete = False\<rparr>],
            replies = [], comment_likes = [(JStr ''comment-123'', JStr ''user-123'')]\<rparr>"
  have h1: "distinct (comment_likes ?db)" by simp
  have h2: "?c \<in> comment_id ` set (comments ?db)" by simp
  have before: "likeCount ?c ?db = 1" by (simp add: likeCount_def)
  have notyet: "(?c, ?u) \<notin> set (comment_likes ?db)" by simp
  obtain db1 db2 where a: "LikeUnlikeCommentUseCase_execute ?c ?u ?db = (Inr (), db1)"
    and b: "LikeUnlikeCommentUseCase_execute ?c ?u db1 = (Inr (), db2)"
    and restored: "\<forall>c'. likeCount c' db2 = likeCount c' ?db"
    and once: "(?c, ?u) \<notin> set (comment_likes ?db) \<longrightarrow> likeCount ?c db1 = likeCount ?c ?db + 1"
    using C1_like_toggle [OF h1 h2, of ?u] by blast
  from a have d1: "snd (LikeUnlikeCommentUseCase_execute ?c ?u ?db) = db1" by simp
  from b have d2: "snd (LikeUnlikeCommentUseCase_execute ?c ?u db1) = db2" by simp
  from restored before have r2: "likeCount ?c db2 = 1" by simp
  from once notyet before have r1: "likeCount ?c db1 = 2" by simp
  from r1 r2 show ?thesis by (simp only: d1 d2)
qed

section \<open>Deleting comments and replies\<close>

text \<open>
  C2. When the comment named by the route exists and its owner is not the authenticated
  user, the DELETE handler fails with the authorization error and the store is exactly as
  before, soft-delete flags included; the same for a reply and a user who is not its owner.
  More generally, whenever either deletion fails, the store is unchanged: the checks come
  before the mutation.
\<close>

theorem C2_non_owner_delete:
  "(find (\<lambda>row. comment_id row = get_prop (params r) ''commentId'') (comments db) = Some row \<and>
    comment_owner row \<noteq> get_prop (auth_credentials r) ''id'' \<longrightarrow>
      (deleteCommentHandler DeleteCommentUseCase_execute r db
         :: (error + unit body handler_return) \<times> store) = (Inl not_comment_owner, db)) \<and>
   (find (\<lambda>row. reply_id row = rid) (replies db) = Some rrow \<and> reply_owner rrow \<noteq> userId \<longrightarrow>
      DeleteReplyUseCase_execute rid userId db = (Inl not_reply_owner, db)) \<and>
   (\<exists>m. not_comment_owner = AuthorizationError m) \<and>
   (\<exists>m. not_reply_owner = AuthorizationError m) \<and>
   (\<forall>e db'. (deleteCommentHandler DeleteCommentUseCase_execute r db
         :: (error + unit body handler_return) \<times> store) = (Inl e, db') \<longrightarrow> db' = db) \<and>
   (\<forall>e db'. DeleteReplyUseCase_execute rid userId db = (Inl e, db') \<longrightarrow> db' = db)"
  by (auto simp: deleteCommentHandler_def DeleteCommentUseCase_execute_def deleteCommentPayload_def
      verifyCommentOwner_def DeleteReplyUseCase_execute_def verifyReplyOwner_def get_prop_def
      not_comment_owner_def not_reply_owner_def
      split: option.splits if_splits)


theorem C2_non_owner_delete_witness:
  "(deleteCommentHandler DeleteCommentUseCase_execute
      \<lparr>payload = Map.empty,
       params = [''threadId'' \<mapsto> JStr ''thread-123'', ''commentId'' \<mapsto> JStr ''comment-123''],
       auth_credentials = [''id'' \<mapsto> JStr ''user-456'']\<rparr>
      \<lparr>users = [],
       comments = [\<lparr>comment_id = JStr ''comment-123'', comment_thread = JStr ''thread-123'',
                    comment_owner = JStr ''user-123'', comment_content = ''sebuah comment'',
                    comment_is_delete = False\<rparr>],
       replies = [\<lparr>reply_id = JStr ''reply-123'', reply_comment = JStr ''comment-123'',
                   reply_owner = JStr ''user-123'', reply_content = ''sebuah balasan'',
                   reply_is_delete = False\<rparr>],
       comment_likes = []\<rparr>
     :: (error + unit body handler_return) \<times> store)
    = (Inl (AuthorizationError ''not the owner of the comment''),
       \<lparr>users = [],
        comments = [\<lparr>comment_id = JStr ''comment-123'', comment_thread = JStr ''thread-123'',
                     comment_owner = JStr ''user-123'', comment_content = ''sebuah comment'',
                     comment_is_delete = False\<rparr>],
        replies = [\<lparr>reply_id = JStr ''reply-123'', reply_comment = JStr ''comment-123'',
                    reply_owner = JStr ''user-123'', reply_content = ''sebuah balasan'',
                    reply_is_delete = False\<rparr>],
        comment_likes = []\<rparr>) \<and>
   DeleteReplyUseCase_execute (JStr ''reply-123'') (JStr ''user-456'')
      \<lparr>users = [],
       comments = [\<lparr>comment_id = JStr ''comment-123'', comment_thread = JStr ''thread-123'',
                    comment_owner = JStr ''user-123'', comment_content = ''sebuah comment'',
                    comment_is_delete = False\<rparr>],
       replies = [\<lparr>reply_id = JStr ''reply-123'', reply_comment = JStr ''comment-123'',
                   reply_owner = JStr ''user-123'', reply_content = ''sebuah balasan'',
                   reply_is_delete = False\<rparr>],
       comment_likes = []\<rparr>
    = (Inl (AuthorizationError ''not the owner of the reply''),
       \<lparr>users = [],
        comments = [\<lparr>comment_id = JStr ''comment-123'', comment_thread = JStr ''thread-123'',
                     comment_owner = JStr ''user-123'', comment_content = ''sebuah comment'',
                     comment_is_delete = False\<rparr>],
        replies = [\<lparr>reply_id = JStr ''reply-123'', reply_comment = JStr ''comment-123'',
                    reply_owner = JStr ''user-123'', reply_content = ''sebuah balasan'',
                    reply_is_delete = False\<rparr>],
        comment_likes = []\<rparr>)"
proof -
  let ?r = "\<lparr>payload = Map.empty,
       params = [''threadId'' \<mapsto> JStr ''thread-123'', ''commentId'' \<mapsto> JStr ''comment-123''],
       auth_credentials = [''id'' \<mapsto> JStr ''user-456'']\<rparr>"
  let ?crow = "\<lparr>comment_id = JStr ''comment-123'', comment_thread = JStr ''thread-123'',
                    comment_owner = JStr ''user-123'', comment_content = ''sebuah comment'',
                    comment_is_delete = False\<rparr>"
  let ?rrow = "\<lparr>reply_id = JStr ''reply-123'', reply_comment = JStr ''comment-123'',
                   reply_owner = JStr ''user-123'', reply_content = ''sebuah balasan'',
                   reply_is_delete = False\<rparr>"
  let ?db = "\<lparr>users = [], comments = [?crow], replies = [?rrow], comment_likes = []\<rparr>"
  have hc: "find (\<lambda>row. comment_id row = get_prop (params ?r) ''commentId'') (comments ?db)
       = Some ?crow \<and>
     comment_owner ?crow \<noteq> get_prop (auth_credentials ?r) ''id''"
    by (simp add: get_prop_def)
  have hr: "find (\<lambda>row. reply_id row = JStr ''reply-123'') (replies ?db) = Some ?rrow \<and>
     reply_owner ?rrow \<noteq> JStr ''user-456''"
    by simp
  note t = C2_non_owner_delete [of ?r ?db ?crow "JStr ''reply-123''" ?rrow "JStr ''user-456''"]
  have a: "(deleteCommentHandler DeleteCommentUseCase_execute ?r ?db
     :: (error + unit body handler_return) \<times> store) = (Inl not_comment_owner, ?db)"
    by (rule mp [OF t [THEN conjunct1] hc])
  have b: "DeleteReplyUseCase_execute (JStr ''reply-123'') (JStr ''user-456'') ?db
     = (Inl not_reply_owner, ?db)"
    by (rule mp [OF t [THEN conjunct2, THEN conjunct1] hr])
  from a b show ?thesis
    by (simp only: not_comment_owner_def not_reply_owner_def)
qed

section \<open>Soft delete and the thread detail\<close>

lemma deleteComment_other_tables:
  "users (deleteComment cid db) = users db"
  "replies (deleteComment cid db) = replies db"
  "comment_likes (deleteComment cid db) = comment_likes db"
  by (simp_all add: deleteComment_def)

lemma deleteReply_other_tables:
  "users (deleteReply rid db) = users db"
  "comments (deleteReply rid db) = comments db"
  "comment_likes (deleteReply rid db) = comment_likes db"
  by (simp_all add: deleteReply_def)

lemma deleteComment_keeps_rows:
  "map (\<lambda>row. (comment_id row, comment_thread row, comment_owner row, comment_content row))
       (comments (deleteComment cid db)) =
   map (\<lambda>row. (comment_id row, comment_thread row, comment_owner row, comment_content row))
       (comments db)"
proof -
  define f :: "comment_row \<Rightarrow> comment_row"
    where "f = (\<lambda>row. if comment_id row = cid then row\<lparr>comment_is_delete := True\<rparr> else row)"
  have same: "(comment_id (f row), comment_thread (f row), comment_owner (f row), comment_content (f row))
      = (comment_id row, comment_thread row, comment_owner row, comment_content row)" for row
    by (simp add: f_def)
  have "comments (deleteComment cid db) = map f (comments db)"
    by (simp add: deleteComment_def f_def)
  then show ?thesis
    by (simp add: comp_def same)
qed

lemma deleteReply_keeps_rows:
  "map (\<lambda>row. (reply_id row, reply_comment row, reply_owner row, reply_content row))
       (replies (deleteReply rid db)) =
   map (\<lambda>row. (reply_id row, reply_comment row, reply_owner row, reply_content row))
       (replies db)"
proof -
  define f :: "reply_row \<Rightarrow> reply_row"
    where "f = (\<lambda>row. if reply_id row = rid then row\<lparr>reply_is_delete := True\<rparr> else row)"
  have same: "(reply_id (f row), reply_comment (f row), reply_owner (f row), reply_content (f row))
      = (reply_id row, reply_comment row, reply_owner row, reply_content row)" for row
    by (simp add: f_def)
  have "replies (deleteReply rid db) = map f (replies db)"
    by (simp add: deleteReply_def f_def)
  then show ?thesis
    by (simp add: comp_def same)
qed

lemma likeCount_cong:
  "comment_likes db' = comment_likes db \<Longrightarrow> likeCount c db' = likeCount c db"
  by (simp add: likeCount_def)

lemma detailThread_deleteComment:
  "detailThread t (deleteComment cid db) =
     map (\<lambda>v. if view_comment_id v = cid then v\<lparr>view_comment_content := None\<rparr> else v)
       (detailThread t db)"
proof -
  define f :: "comment_row \<Rightarrow> comment_row"
    where "f = (\<lambda>row. if comment_id row = cid then row\<lparr>comment_is_delete := True\<rparr> else row)"
  define g :: "comment_view \<Rightarrow> comment_view"
    where "g = (\<lambda>v. if view_comment_id v = cid then v\<lparr>view_comment_content := None\<rparr> else v)"
  have thread: "comment_thread (f row) = comment_thread row" for row
    by (simp add: f_def)
  have view: "viewComment (deleteComment cid db) (f row) = g (viewComment db row)" for row
  proof (cases "comment_id row = cid")
    case True
    then show ?thesis
      by (simp add: viewComment_def f_def g_def deleteComment_other_tables
          likeCount_cong [OF deleteComment_other_tables(3)])
  next
    case False
    then show ?thesis
      by (simp add: viewComment_def f_def g_def deleteComment_other_tables
          likeCount_cong [OF deleteComment_other_tables(3)])
  qed
  have rows: "comments (deleteComment cid db) = map f (comments db)"
    by (simp add: deleteComment_def f_def)
  have "detailThread t (deleteComment cid db) =
      map (viewComment (deleteComment cid db))
        (map f (filter (\<lambda>row. comment_thread row = t) (comments db)))"
    by (simp add: detailThread_def rows filter_map comp_def thread)
  also have "\<dots> = map g (detailThread t db)"
    by (simp add: detailThread_def comp_def view)
  finally show ?thesis
    by (simp only: g_def)
qed


lemma detailThread_deleteReply:
  "detailThread t (deleteReply rid db) =
     map (\<lambda>v. v\<lparr>view_replies :=
            map (\<lambda>rv. if view_reply_id rv = rid then rv\<lparr>view_reply_content := None\<rparr> else rv)
              (view_replies v)\<rparr>)
       (detailThread t db)"
proof -
  define f :: "reply_row \<Rightarrow> reply_row"
    where "f = (\<lambda>row. if reply_id row = rid then row\<lparr>reply_is_delete := True\<rparr> else row)"
  define h :: "reply_view \<Rightarrow> reply_view"
    where "h = (\<lambda>rv. if view_reply_id rv = rid then rv\<lparr>view_reply_content := None\<rparr> else rv)"
  have parent: "reply_comment (f row) = reply_comment row" for row
    by (simp add: f_def)
  have reply: "viewReply (f row) = h (viewReply row)" for row
    by (cases "reply_id row = rid") (simp_all add: viewReply_def f_def h_def)
  have rows: "replies (deleteReply rid db) = map f (replies db)"
    by (simp add: deleteReply_def f_def)
  have view: "viewComment (deleteReply rid db) row =
      (viewComment db row)\<lparr>view_replies := map h (view_replies (viewComment db row))\<rparr>" for row
    by (simp add: viewComment_def rows filter_map comp_def parent reply deleteReply_other_tables
        likeCount_cong [OF deleteReply_other_tables(3)])
  have "detailThread t (deleteReply rid db) =
      map (\<lambda>v. v\<lparr>view_replies := map h (view_replies v)\<rparr>) (detailThread t db)"
    by (simp add: detailThread_def deleteReply_other_tables comp_def view)
  then show ?thesis
    by (simp only: h_def)
qed

lemma hidden_comment_keeps:
  "map (\<lambda>v. (view_comment_id v, view_replies v, view_likeCount v))
     (map (\<lambda>v. if view_comment_id v = cid then v\<lparr>view_comment_content := None\<rparr> else v) vs) =
   map (\<lambda>v. (view_comment_id v, view_replies v, view_likeCount v)) (vs :: comment_view list)"
proof -
  define g :: "comment_view \<Rightarrow> comment_view"
    where "g = (\<lambda>v. if view_comment_id v = cid then v\<lparr>view_comment_content := None\<rparr> else v)"
  have "(view_comment_id (g v), view_replies (g v), view_likeCount (g v)) =
      (view_comment_id v, view_replies v, view_likeCount v)" for v
    by (simp add: g_def)
  then have "map (\<lambda>v. (view_comment_id v, view_replies v, view_likeCount v)) (map g vs) =
      map (\<lambda>v. (view_comment_id v, view_replies v, view_likeCount v)) vs"
    by (simp add: comp_def)
  then show ?thesis by (simp only: g_def)
qed

lemma hidden_comment_content:
  assumes "v \<in> set (map (\<lambda>v. if view_comment_id v = cid then v\<lparr>view_comment_content := None\<rparr> else v)
     (vs :: comment_view list))"
  shows "(view_comment_id v = cid \<longrightarrow> view_comment_content v = None) \<and>
         (view_comment_id v \<noteq> cid \<longrightarrow> v \<in> set vs)"
proof -
  define g :: "comment_view \<Rightarrow> comment_view"
    where "g = (\<lambda>v. if view_comment_id v = cid then v\<lparr>view_comment_content := None\<rparr> else v)"
  from assms have "v \<in> set (map g vs)" by (simp only: g_def)
  then obtain w where w: "w \<in> set vs" "v = g w" by auto
  show ?thesis
  proof (cases "view_comment_id w = cid")
    case True
    then show ?thesis by (simp add: w g_def)
  next
    case False
    with w show ?thesis by (simp add: g_def)
  qed
qed

lemma hidden_reply_keeps:
  "map view_reply_id
     (map (\<lambda>rv. if view_reply_id rv = rid then rv\<lparr>view_reply_content := None\<rparr> else rv) rvs) =
   map view_reply_id (rvs :: reply_view list)"
proof -
  define h :: "reply_view \<Rightarrow> reply_view"
    where "h = (\<lambda>rv. if view_reply_id rv = rid then rv\<lparr>view_reply_content := None\<rparr> else rv)"
  have "view_reply_id (h rv) = view_reply_id rv" for rv
    by (simp add: h_def)
  then have "map view_reply_id (map h rvs) = map view_reply_id rvs"
    by (simp add: comp_def)
  then show ?thesis by (simp only: h_def)
qed

lemma hidden_reply_content:
  assumes "rv \<in> set (map (\<lambda>rv. if view_reply_id rv = rid then rv\<lparr>view_reply_content := None\<rparr> else rv)
     (rvs :: reply_view list))"
  shows "(view_reply_id rv = rid \<longrightarrow> view_reply_content rv = None) \<and>
         (view_reply_id rv \<noteq> rid \<longrightarrow> rv \<in> set rvs)"
proof -
  define h :: "reply_view \<Rightarrow> reply_view"
    where "h = (\<lambda>rv. if view_reply_id rv = rid then rv\<lparr>view_reply_content := None\<rparr> else rv)"
  from assms have "rv \<in> set (map h rvs)" by (simp only: h_def)
  then obtain w where w: "w \<in> set rvs" "rv = h w" by auto
  show ?thesis
  proof (cases "view_reply_id w = rid")
    case True
    then show ?thesis by (simp add: w h_def)
  next
    case False
    with w show ?thesis by (simp add: h_def)
  qed
qed


lemma deleteComment_flag:
  assumes "row \<in> set (comments (deleteComment cid db))" and "comment_id row = cid"
  shows "comment_is_delete row"
proof -
  define f :: "comment_row \<Rightarrow> comment_row"
    where "f = (\<lambda>row. if comment_id row = cid then row\<lparr>comment_is_delete := True\<rparr> else row)"
  have "comments (deleteComment cid db) = map f (comments db)"
    by (simp add: deleteComment_def f_def)
  with assms(1) obtain r where r: "row = f r"
    by auto
  show ?thesis
  proof (cases "comment_id r = cid")
    case True
    then show ?thesis by (simp add: r f_def)
  next
    case False
    with assms(2) r show ?thesis by (simp add: f_def)
  qed
qed

lemma deleteReply_flag:
  assumes "row \<in> set (replies (deleteReply rid db))" and "reply_id row = rid"
  shows "reply_is_delete row"
proof -
  define f :: "reply_row \<Rightarrow> reply_row"
    where "f = (\<lambda>row. if reply_id row = rid then row\<lparr>reply_is_delete := True\<rparr> else row)"
  have "replies (deleteReply rid db) = map f (replies db)"
    by (simp add: deleteReply_def f_def)
  with assms(1) obtain r where r: "row = f r"
    by auto
  show ?thesis
  proof (cases "reply_id r = rid")
    case True
    then show ?thesis by (simp add: r f_def)
  next
    case False
    with assms(2) r show ?thesis by (simp add: f_def)
  qed
qed

lemma DeleteComment_success:
  assumes "DeleteCommentUseCase_execute p db = (Inr u, db')"
  shows "db' = deleteComment (get_prop p ''id'') db"
  using assms by (simp add: DeleteCommentUseCase_execute_def split: option.splits)

lemma DeleteReply_success:
  assumes "DeleteReplyUseCase_execute rid userId db = (Inr u, db')"
  shows "db' = deleteReply rid db"
  using assms by (simp add: DeleteReplyUseCase_execute_def split: option.splits)

lemma detailThread_deleteReply_keeps:
  "map (\<lambda>v. (view_comment_id v, view_comment_content v, map view_reply_id (view_replies v),
            view_likeCount v)) (detailThread t (deleteReply rid db)) =
   map (\<lambda>v. (view_comment_id v, view_comment_content v, map view_reply_id (view_replies v),
            view_likeCount v)) (detailThread t db)"
  by (simp add: detailThread_deleteReply comp_def hidden_reply_keeps)

lemma detailThread_deleteReply_content:
  assumes "v \<in> set (detailThread t (deleteReply rid db))" and "rv \<in> set (view_replies v)"
    and "view_reply_id rv = rid"
  shows "view_reply_content rv = None"
proof -
  from assms(1) obtain w where
    "v = w\<lparr>view_replies :=
            map (\<lambda>rv. if view_reply_id rv = rid then rv\<lparr>view_reply_content := None\<rparr> else rv)
              (view_replies w)\<rparr>"
    by (auto simp: detailThread_deleteReply)
  with assms(2) have "rv \<in> set (map (\<lambda>rv. if view_reply_id rv = rid
      then rv\<lparr>view_reply_content := None\<rparr> else rv) (view_replies w))"
    by simp
  from hidden_reply_content [OF this] assms(3) show ?thesis
    by blast
qed

text \<open>
  C7. After a comment has been soft-deleted by its owner, its row is still in the table with
  the same id, thread, owner and content, now flagged as deleted; the replies and the likes
  are untouched; in the detail of every thread the entries are the same comments with the
  same nested replies and the same like counts, the content of the deleted comment is
  hidden, and every other entry is as it was. After a reply has been soft-deleted, its row
  is retained and flagged in the same way; the comments and the likes are untouched; the
  detail lists the same comments with the same contents, the same replies under each and
  the same like counts, and the content of the deleted reply is hidden.
\<close>

theorem C7_soft_delete_keeps_linkage:
  "(DeleteCommentUseCase_execute p db = (Inr u, db') \<longrightarrow>
      map (\<lambda>row. (comment_id row, comment_thread row, comment_owner row, comment_content row))
          (comments db') =
      map (\<lambda>row. (comment_id row, comment_thread row, comment_owner row, comment_content row))
          (comments db) \<and>
      (\<forall>row \<in> set (comments db'). comment_id row = get_prop p ''id'' \<longrightarrow> comment_is_delete row) \<and>
      replies db' = replies db \<and> comment_likes db' = comment_likes db \<and>
      (\<forall>t. map (\<lambda>v. (view_comment_id v, view_replies v, view_likeCount v)) (detailThread t db') =
           map (\<lambda>v. (view_comment_id v, view_replies v, view_likeCount v)) (detailThread t db)) \<and>
      (\<forall>t. \<forall>v \<in> set (detailThread t db').
           (view_comment_id v = get_prop p ''id'' \<longrightarrow> view_comment_content v = None) \<and>
           (view_comment_id v \<noteq> get_prop p ''id'' \<longrightarrow> v \<in> set (detailThread t db)))) \<and>
   (DeleteReplyUseCase_execute rid userId db = (Inr u, db2) \<longrightarrow>
      map (\<lambda>row. (reply_id row, reply_comment row, reply_owner row, reply_content row))
          (replies db2) =
      map (\<lambda>row. (reply_id row, reply_comment row, reply_owner row, reply_content row))
          (replies db) \<and>
      (\<forall>row \<in> set (replies db2). reply_id row = rid \<longrightarrow> reply_is_delete row) \<and>
      comments db2 = comments db \<and> comment_likes db2 = comment_likes db \<and>
      (\<forall>t. map (\<lambda>v. (view_comment_id v, view_comment_content v, map view_reply_id (view_replies v),
                     view_likeCount v)) (detailThread t db2) =
           map (\<lambda>v. (view_comment_id v, view_comment_content v, map view_reply_id (view_replies v),
                     view_likeCount v)) (detailThread t db)) \<and>
      (\<forall>t. \<forall>v \<in> set (detailThread t db2). \<forall>rv \<in> set (view_replies v).
           view_reply_id rv = rid \<longrightarrow> view_reply_content rv = None))"
proof (intro conjI impI)
  assume a: "DeleteCommentUseCase_execute p db = (Inr u, db')"
  note eq = DeleteComment_success [OF a]
  show "map (\<lambda>row. (comment_id row, comment_thread row, comment_owner row, comment_content row))
          (comments db') =
      map (\<lambda>row. (comment_id row, comment_thread row, comment_owner row, comment_content row))
          (comments db)"
    by (simp only: eq deleteComment_keeps_rows)
  show "\<forall>row \<in> set (comments db'). comment_id row = get_prop p ''id'' \<longrightarrow> comment_is_delete row"
    using deleteComment_flag by (simp only: eq) blast
  show "replies db' = replies db" and "comment_likes db' = comment_likes db"
    by (simp_all only: eq deleteComment_other_tables)
  show "\<forall>t. map (\<lambda>v. (view_comment_id v, view_replies v, view_likeCount v)) (detailThread t db') =
           map (\<lambda>v. (view_comment_id v, view_replies v, view_likeCount v)) (detailThread t db)"
    by (simp only: eq detailThread_deleteComment hidden_comment_keeps) simp
  show "\<forall>t. \<forall>v \<in> set (detailThread t db').
           (view_comment_id v = get_prop p ''id'' \<longrightarrow> view_comment_content v = None) \<and>
           (view_comment_id v \<noteq> get_prop p ''id'' \<longrightarrow> v \<in> set (detailThread t db))"
    using hidden_comment_content by (simp only: eq detailThread_deleteComment) blast
next
  assume a: "DeleteReplyUseCase_execute rid userId db = (Inr u, db2)"
  note eq = DeleteReply_success [OF a]
  show "map (\<lambda>row. (reply_id row, reply_comment row, reply_owner row, reply_content row))
          (replies db2) =
      map (\<lambda>row. (reply_id row, reply_comment row, reply_owner row, reply_content row))
          (replies db)"
    by (simp only: eq deleteReply_keeps_rows)
  show "\<forall>row \<in> set (replies db2). reply_id row = rid \<longrightarrow> reply_is_delete row"
    using deleteReply_flag by (simp only: eq) blast
  show "comments db2 = comments db" and "comment_likes db2 = comment_likes db"
    by (simp_all only: eq deleteReply_other_tables)
  show "\<forall>t. map (\<lambda>v. (view_comment_id v, view_comment_content v, map view_reply_id (view_replies v),
                     view_likeCount v)) (detailThread t db2) =
           map (\<lambda>v. (view_comment_id v, view_comment_content v, map view_reply_id (view_replies v),
                     view_likeCount v)) (detailThread t db)"
    by (simp only: eq detailThread_deleteReply_keeps) simp
  show "\<forall>t. \<forall>v \<in> set (detailThread t db2). \<forall>rv \<in> set (view_replies v).
           view_reply_id rv = rid \<longrightarrow> view_reply_content rv = None"
    using detailThread_deleteReply_content by (simp only: eq) blast
qed


theorem C7_soft_delete_keeps_linkage_witness:
  "DeleteCommentUseCase_execute
      [''id'' \<mapsto> JStr ''comment-123'', ''threadId'' \<mapsto> JStr ''thread-123'',
       ''userId'' \<mapsto> JStr ''user-123'']
      \<lparr>users = [],
       comments = [\<lparr>comment_id = JStr ''comment-123'', comment_thread = JStr ''thread-123'',
                    comment_owner = JStr ''user-123'', comment_content = ''sebuah comment'',
                    comment_is_delete = False\<rparr>],
       replies = [\<lparr>reply_id = JStr ''reply-123'', reply_comment = JStr ''comment-123'',
                   reply_owner = JStr ''user-456'', reply_content = ''sebuah balasan'',
                   reply_is_delete = False\<rparr>],
       comment_likes = [(JStr ''comment-123'', JStr ''user-456'')]\<rparr>
    = (Inr (),
       \<lparr>users = [],
        comments = [\<lparr>comment_id = JStr ''comment-123'', comment_thread = JStr ''thread-123'',
                     comment_owner = JStr ''user-123'', comment_content = ''sebuah comment'',
                     comment_is_delete = True\<rparr>],
        replies = [\<lparr>reply_id = JStr ''reply-123'', reply_comment = JStr ''comment-123'',
                    reply_owner = JStr ''user-456'', reply_content = ''sebuah balasan'',
                    reply_is_delete = False\<rparr>],
        comment_likes = [(JStr ''comment-123'', JStr ''user-456'')]\<rparr>) \<and>
   map (\<lambda>v. (view_comment_id v, view_replies v, view_likeCount v))
     (detailThread (JStr ''thread-123'')
       \<lparr>users = [],
        comments = [\<lparr>comment_id = JStr ''comment-123'', comment_thread = JStr ''thread-123'',
                     comment_owner = JStr ''user-123'', comment_content = ''sebuah comment'',
                     comment_is_delete = True\<rparr>],
        replies = [\<lparr>reply_id = JStr ''reply-123'', reply_comment = JStr ''comment-123'',
                    reply_owner = JStr ''user-456'', reply_content = ''sebuah balasan'',
                    reply_is_delete = False\<rparr>],
        comment_likes = [(JStr ''comment-123'', JStr ''user-456'')]\<rparr>)
    = [(JStr ''comment-123'',
        [\<lparr>view_reply_id = JStr ''reply-123'', view_reply_content = Some ''sebuah balasan''\<rparr>],
        1)] \<and>
   map (\<lambda>v. (view_comment_id v, view_comment_content v, map view_reply_id (view_replies v),
             view_likeCount v))
     (detailThread (JStr ''thread-123'')
       (snd (DeleteReplyUseCase_execute (JStr ''reply-123'') (JStr ''user-456'')
         \<lparr>users = [],
          comments = [\<lparr>comment_id = JStr ''comment-123'', comment_thread = JStr ''thread-123'',
                       comment_owner = JStr ''user-123'', comment_content = ''sebuah comment'',
                       comment_is_delete = False\<rparr>],
          replies = [\<lparr>reply_id = JStr ''reply-123'', reply_comment = JStr ''comment-123'',
                      reply_owner = JStr ''user-456'', reply_content = ''sebuah balasan'',
                      reply_is_delete = False\<rparr>],
          comment_likes = [(JStr ''comment-123'', JStr ''user-456'')]\<rparr>)))
    = [(JStr ''comment-123'', Some ''sebuah comment'', [JStr ''reply-123''], 1)]"
proof -
  let ?p = "[''id'' \<mapsto> JStr ''comment-123'', ''threadId'' \<mapsto> JStr ''thread-123'',
       ''userId'' \<mapsto> JStr ''user-123'']"
  let ?crow = "\<lparr>comment_id = JStr ''comment-123'', comment_thread = JStr ''thread-123'',
                    comment_owner = JStr ''user-123'', comment_content = ''sebuah comment'',
                    comment_is_delete = False\<rparr>"
  let ?rrow = "\<lparr>reply_id = JStr ''reply-123'', reply_comment = JStr ''comment-123'',
                   reply_owner = JStr ''user-456'', reply_content = ''sebuah balasan'',
                   reply_is_delete = False\<rparr>"
  let ?likes = "[(JStr ''comment-123'', JStr ''user-456'')]"
  let ?db = "\<lparr>users = [], comments = [?crow], replies = [?rrow], comment_likes = ?likes\<rparr>"
  let ?db' = "\<lparr>users = [], comments = [?crow\<lparr>comment_is_delete := True\<rparr>],
       replies = [?rrow], comment_likes = ?likes\<rparr>"
  let ?db2 = "\<lparr>users = [], comments = [?crow],
       replies = [?rrow\<lparr>reply_is_delete := True\<rparr>], comment_likes = ?likes\<rparr>"
  have before: "detailThread (JStr ''thread-123'') ?db =
      [\<lparr>view_comment_id = JStr ''comment-123'', view_comment_content = Some ''sebuah comment'',
        view_replies = [\<lparr>view_reply_id = JStr ''reply-123'',
                        view_reply_content = Some ''sebuah balasan''\<rparr>],
        view_likeCount = 1\<rparr>]"
    by (simp add: detailThread_def viewComment_def viewReply_def likeCount_def)
  have e1: "DeleteCommentUseCase_execute ?p ?db = (Inr (), ?db')"
    by (simp add: DeleteCommentUseCase_execute_def verifyCommentOwner_def deleteComment_def
        get_prop_def)
  have e2: "DeleteReplyUseCase_execute (JStr ''reply-123'') (JStr ''user-456'') ?db = (Inr (), ?db2)"
    by (simp add: DeleteReplyUseCase_execute_def verifyReplyOwner_def deleteReply_def)
  note t1 = C7_soft_delete_keeps_linkage
      [where p = ?p and db = ?db and db' = ?db' and u = "()", THEN conjunct1, THEN mp, OF e1]
  note t2 = C7_soft_delete_keeps_linkage
      [where rid = "JStr ''reply-123''" and userId = "JStr ''user-456''" and db = ?db
         and ?db2.0 = ?db2 and u = "()", THEN conjunct2, THEN mp, OF e2]
  from t1 have "map (\<lambda>v. (view_comment_id v, view_replies v, view_likeCount v))
        (detailThread (JStr ''thread-123'') ?db') =
      map (\<lambda>v. (view_comment_id v, view_replies v, view_likeCount v))
        (detailThread (JStr ''thread-123'') ?db)"
    by blast
  then have a: "map (\<lambda>v. (view_comment_id v, view_replies v, view_likeCount v))
        (detailThread (JStr ''thread-123'') ?db') =
      [(JStr ''comment-123'',
        [\<lparr>view_reply_id = JStr ''reply-123'', view_reply_content = Some ''sebuah balasan''\<rparr>],
        1)]"
    by (simp only: before) simp
  from t2 have "map (\<lambda>v. (view_comment_id v, view_comment_content v,
          map view_reply_id (view_replies v), view_likeCount v))
        (detailThread (JStr ''thread-123'') ?db2) =
      map (\<lambda>v. (view_comment_id v, view_comment_content v,
          map view_reply_id (view_replies v), view_likeCount v))
        (detailThread (JStr ''thread-123'') ?db)"
    by blast
  then have b: "map (\<lambda>v. (view_comment_id v, view_comment_content v,
          map view_reply_id (view_replies v), view_likeCount v))
        (detailThread (JStr ''thread-123'') (snd (DeleteReplyUseCase_execute (JStr ''reply-123'')
           (JStr ''user-456'') ?db))) =
      [(JStr ''comment-123'', Some ''sebuah comment'', [JStr ''reply-123''], 1)]"
    by (simp only: before e2 snd_conv) simp
  from e1 a b show ?thesis
    by simp
qed

end
